theory Spec2Isabelle
  imports Main "HOL-Library.Sublist"
begin

section \<open>Data shared by the React pages\<close>

text \<open>
  The objects the REST API returns, as the pages read them.  A field that JavaScript may
  find \<^verbatim>\<open>null\<close> or \<^verbatim>\<open>undefined\<close> is an option; statuses, severities and filter
  values stay strings, because the pages compare them with string literals and nothing
  keeps other strings out.
\<close>

record vulnerability =
  vuln_id :: nat
  severity :: string
  is_suppressed :: bool
  ai_is_false_positive :: "bool option"

record scan =
  scan_id :: nat
  status :: string
  error_message :: "string option"
  vulnerabilities :: "vulnerability list"

text \<open>JavaScript truthiness of a value that is a boolean, \<^verbatim>\<open>null\<close> or \<^verbatim>\<open>undefined\<close>.\<close>

definition truthy_flag :: "bool option \<Rightarrow> bool" where
  "truthy_flag b = (b = Some True)"

text \<open>JavaScript truthiness of a value that is a string, \<^verbatim>\<open>null\<close> or \<^verbatim>\<open>undefined\<close>:
  the empty string is falsy.\<close>

definition truthy_string :: "string option \<Rightarrow> bool" where
  "truthy_string s = (case s of None \<Rightarrow> False | Some t \<Rightarrow> t \<noteq> [])"

section \<open>ScanResults: the filter of the vulnerability list\<close>

text \<open>
  \<^verbatim>\<open>
  const filtered = vulns.filter((v) => {
    if (!showSuppressed && v.is_suppressed) return false
    if (filterSeverity !== 'ALL' && v.severity !== filterSeverity) return false
    if (filterFP === 'FP' && !v.ai_is_false_positive) return false
    if (filterFP === 'REAL' && v.ai_is_false_positive !== false) return false
    return true
  })
  \<close>
\<close>

definition keep_vuln :: "bool \<Rightarrow> string \<Rightarrow> string \<Rightarrow> vulnerability \<Rightarrow> bool" where
  "keep_vuln showSuppressed filterSeverity filterFP v =
     (if \<not> showSuppressed \<and> is_suppressed v then False
      else if filterSeverity \<noteq> ''ALL'' \<and> severity v \<noteq> filterSeverity then False
      else if filterFP = ''FP'' \<and> \<not> truthy_flag (ai_is_false_positive v) then False
      else if filterFP = ''REAL'' \<and> ai_is_false_positive v \<noteq> Some False then False
      else True)"

definition filtered :: "bool \<Rightarrow> string \<Rightarrow> string \<Rightarrow> vulnerability list \<Rightarrow> vulnerability list" where
  "filtered showSuppressed filterSeverity filterFP vulns =
     filter (keep_vuln showSuppressed filterSeverity filterFP) vulns"

text \<open>The first two tests of the filter, which do not look at the false-positive flag.\<close>

definition passes_other_filters :: "bool \<Rightarrow> string \<Rightarrow> vulnerability \<Rightarrow> bool" where
  "passes_other_filters showSuppressed filterSeverity v =
     ((showSuppressed \<or> \<not> is_suppressed v) \<and>
      (filterSeverity = ''ALL'' \<or> severity v = filterSeverity))"

section \<open>services/api.js: the response interceptor\<close>

text \<open>
  The single Axios instance every endpoint wrapper (\<open>authAPI\<close>, \<open>scansAPI\<close>,
  \<open>integrationsAPI\<close>) goes through.  The browser state the interceptor touches is
  \<open>localStorage\<close> and \<open>window.location.href\<close>.
\<close>

record browser =
  localStorage :: "string \<rightharpoonup> string"
  location_href :: string

record http_response =
  resp_url :: string
  resp_status :: nat

text \<open>An Axios error; \<open>err_response\<close> is undefined when no response arrived.\<close>

record axios_error =
  err_url :: string
  err_response :: "http_response option"

text \<open>\<^verbatim>\<open>err.response?.status\<close>\<close>

definition err_status :: "axios_error \<Rightarrow> nat option" where
  "err_status err = map_option resp_status (err_response err)"

text \<open>
  \<^verbatim>\<open>
  api.interceptors.response.use(
    (res) => res,
    (err) => {
      if (err.response?.status === 401) {
        localStorage.removeItem('user')
        window.location.href = '/login'
      }
      return Promise.reject(err)
    }
  )
  \<close>
  The result is the new browser state and the settled promise: \<open>Inl\<close> a rejection,
  \<open>Inr\<close> a fulfilment.
\<close>

definition on_fulfilled :: "http_response \<Rightarrow> browser \<Rightarrow> browser \<times> (axios_error + http_response)" where
  "on_fulfilled res b = (b, Inr res)"

definition on_rejected :: "axios_error \<Rightarrow> browser \<Rightarrow> browser \<times> (axios_error + http_response)" where
  "on_rejected err b =
     (if err_status err = Some 401
      then (b\<lparr>localStorage := (localStorage b)(''user'' := None), location_href := ''/login''\<rparr>,
            Inl err)
      else (b, Inl err))"

text \<open>
  How Axios hands a response to the interceptor pair: \<open>api.js\<close> keeps the default
  \<open>validateStatus\<close>, so a status from 200 to 299 is fulfilled and any other status
  is rejected with the response attached to the error.
\<close>

definition receive_response :: "http_response \<Rightarrow> browser \<Rightarrow> browser \<times> (axios_error + http_response)" where
  "receive_response res b =
     (if 200 \<le> resp_status res \<and> resp_status res < 300 then on_fulfilled res b
      else on_rejected \<lparr>err_url = resp_url res, err_response = Some res\<rparr> b)"

section \<open>App.jsx: the protected route\<close>

datatype route_element = Children | Navigate string

text \<open>
  \<^verbatim>\<open>
  const user = localStorage.getItem('user')
  return user ? children : <Navigate to="/login" replace />
  \<close>
\<close>

definition ProtectedRoute :: "browser \<Rightarrow> route_element" where
  "ProtectedRoute b =
     (if truthy_string (localStorage b ''user'') then Children else Navigate ''/login'')"

section \<open>ResultsPage: polling and the failed state\<close>

text \<open>
  The polling effect: the interval of the timer it installs, in milliseconds, or
  \<open>None\<close> when it returns without installing one.
  \<^verbatim>\<open>
  if (!scan || scan.status === 'completed' || scan.status === 'failed') return
  const interval = setInterval(fetchScan, 4000)
  \<close>
\<close>

definition results_poll_interval :: "scan option \<Rightarrow> nat option" where
  "results_poll_interval sc =
     (case sc of
        None \<Rightarrow> None
      | Some s \<Rightarrow> if status s = ''completed'' \<or> status s = ''failed'' then None else Some 4000)"

text \<open>\<^verbatim>\<open>a || b\<close> on a string that may be null or undefined.\<close>

definition or_default :: "string option \<Rightarrow> string \<Rightarrow> string" where
  "or_default a b = (case a of None \<Rightarrow> b | Some t \<Rightarrow> if t = [] then b else t)"

text \<open>
  The text of the "Scan Failed" card, or \<open>None\<close> when the card is not rendered.
  \<^verbatim>\<open>
  {scan.status === 'failed' && ( ...
      {scan.error_message || 'An unknown error occurred'}
  \<close>
\<close>

definition failure_reason :: "scan \<Rightarrow> string option" where
  "failure_reason s =
     (if status s = ''failed''
      then Some (or_default (error_message s) ''An unknown error occurred'')
      else None)"

section \<open>ScanLog: polling of the console log\<close>

definition isActive :: "string \<Rightarrow> bool" where
  "isActive scanStatus = (scanStatus = ''pending'' \<or> scanStatus = ''running'')"

text \<open>
  \<^verbatim>\<open>
  if (!isActive) return
  const id = setInterval(fetchLog, 2000)
  \<close>
\<close>

definition scanlog_poll_interval :: "string \<Rightarrow> nat option" where
  "scanlog_poll_interval scanStatus = (if isActive scanStatus then Some 2000 else None)"

text \<open>ResultsPage mounts the log only when the status is not \<open>pending\<close>.\<close>

definition results_log_poll_interval :: "scan \<Rightarrow> nat option" where
  "results_log_poll_interval s =
     (if status s \<noteq> ''pending'' then scanlog_poll_interval (status s) else None)"

section \<open>DashboardPage: polling of the scan list\<close>

text \<open>
  \<^verbatim>\<open>
  useEffect(() => {
    fetchScans()
    const interval = setInterval(() => {
      const hasActive = scans.some((s) => s.status === 'pending' || s.status === 'running')
      if (hasActive) fetchScans()
    }, 5000)
    return () => clearInterval(interval)
  }, [scans.length])
  \<close>
  The timer's callback reads the \<open>scans\<close> of the render in which the effect last ran,
  and the effect runs again only when \<open>scans.length\<close> changes.  So the component's
  state is the current \<open>scans\<close> and the list the running effect closed over.
\<close>

record dashboard =
  scans :: "scan list"
  effect_scans :: "scan list"

definition hasActive :: "scan list \<Rightarrow> bool" where
  "hasActive ss = list_ex (\<lambda>s. status s = ''pending'' \<or> status s = ''running'') ss"

datatype dashboard_event =
  Fetched "scan list"   \<comment> \<open>a \<open>fetchScans\<close> call returns and \<open>setScans(data)\<close> runs\<close>
| Tick                  \<comment> \<open>the 5000 ms timer fires\<close>

text \<open>The first render: no scans; the effect runs and calls \<open>fetchScans\<close> once.\<close>

definition dashboard_mount :: "dashboard \<times> nat" where
  "dashboard_mount = (\<lparr>scans = [], effect_scans = []\<rparr>, 1)"

text \<open>One event: the new state and the number of \<open>fetchScans\<close> calls it issues.\<close>

fun dashboard_step :: "dashboard_event \<Rightarrow> dashboard \<Rightarrow> dashboard \<times> nat" where
  "dashboard_step (Fetched data) d =
     (if length data \<noteq> length (scans d)
      then (\<lparr>scans = data, effect_scans = data\<rparr>, 1)
      else (d\<lparr>scans := data\<rparr>, 0))"
| "dashboard_step Tick d = (d, if hasActive (effect_scans d) then 1 else 0)"

text \<open>A run of events from a state: the final state and the calls issued by each event.\<close>

fun dashboard_run :: "dashboard_event list \<Rightarrow> dashboard \<Rightarrow> dashboard \<times> nat list" where
  "dashboard_run [] d = (d, [])"
| "dashboard_run (e # es) d =
     (case dashboard_step e d of
        (d', n) \<Rightarrow> (case dashboard_run es d' of (d'', ns) \<Rightarrow> (d'', n # ns)))"

section \<open>FileUpload: validation of the chosen file\<close>

text \<open>\<^verbatim>\<open>const SUPPORTED = ['.jar', '.war', '.ear', '.zip', '.sar', '.apk', '.nupkg', '.egg',
  '.wheel', '.tar', '.gz', '.tgz']\<close>\<close>

definition SUPPORTED :: "string list" where
  "SUPPORTED = [''.jar'', ''.war'', ''.ear'', ''.zip'', ''.sar'', ''.apk'', ''.nupkg'', ''.egg'',
                ''.wheel'', ''.tar'', ''.gz'', ''.tgz'']"

text \<open>
  \<^verbatim>\<open>String.prototype.split\<close> with a one-character separator: the pieces between the
  separators, in order.  The result is never the empty array: a string without the
  separator gives the one-element array of the string itself.
\<close>

fun split_on :: "char \<Rightarrow> string \<Rightarrow> string list" where
  "split_on c [] = [[]]"
| "split_on c (x # xs) =
     (if x = c then [] # split_on c xs
      else (case split_on c xs of
              [] \<Rightarrow> [[x]]
            | w # ws \<Rightarrow> (x # w) # ws))"

text \<open>\<^verbatim>\<open>Array.prototype.pop\<close>: the last element, \<open>None\<close> (undefined) on an empty array.\<close>

definition pop :: "'a list \<Rightarrow> 'a option" where
  "pop xs = (if xs = [] then None else Some (last xs))"

text \<open>
  \<^verbatim>\<open>toLowerCase\<close>.  A character of this model is a UTF-16 code unit below 256 (the
  Latin-1 range); file names with other code units are outside the model.  In that
  range the capital letters are A to Z (65 to 90) and U+00C0 to U+00DE (192 to 222)
  without the multiplication sign U+00D7 (215), and the small letter of each is 32
  above it, which is the capital with the bit of value 32 set.
\<close>

definition lower_char :: "char \<Rightarrow> char" where
  "lower_char c =
     (let n = (of_char c :: nat)
      in if (65 \<le> n \<and> n \<le> 90) \<or> (192 \<le> n \<and> n \<le> 222 \<and> n \<noteq> 215)
         then (case c of Char b0 b1 b2 b3 b4 b5 b6 b7 \<Rightarrow> Char b0 b1 b2 b3 b4 True b6 b7)
         else c)"

definition toLowerCase :: "string \<Rightarrow> string" where
  "toLowerCase s = map lower_char s"

text \<open>\<^verbatim>\<open>Array.prototype.join\<close>\<close>

fun join :: "string \<Rightarrow> string list \<Rightarrow> string" where
  "join sep [] = []"
| "join sep [x] = x"
| "join sep (x # y # ys) = x @ sep @ join sep (y # ys)"

record js_file =
  file_name :: string

text \<open>The part of the component's state that \<open>validateAndSet\<close> and \<open>handleUpload\<close> use
  (the state variable \<open>file\<close> is \<open>chosen_file\<close> here, \<open>file\<close> being a keyword).\<close>

record upload_state =
  chosen_file :: "js_file option"
  error :: string

text \<open>\<^verbatim>\<open>const ext = '.' + f.name.split('.').pop().toLowerCase()\<close>; \<open>None\<close> stands for
  the TypeError of calling \<open>toLowerCase\<close> on undefined.\<close>

definition file_ext :: "js_file \<Rightarrow> string option" where
  "file_ext f = map_option (\<lambda>p. ''.'' @ toLowerCase p) (pop (split_on CHR ''.'' (file_name f)))"

text \<open>
  \<^verbatim>\<open>
  const validateAndSet = (f) => {
    const ext = '.' + f.name.split('.').pop().toLowerCase()
    if (!SUPPORTED.includes(ext)) {
      setError(`Unsupported file type. Supported: ${SUPPORTED.join(', ')}`)
      return
    }
    setError('')
    setFile(f)
  }
  \<close>
  \<open>None\<close> is the uncaught TypeError.
\<close>

definition validateAndSet :: "js_file \<Rightarrow> upload_state \<Rightarrow> upload_state option" where
  "validateAndSet f st =
     (case file_ext f of
        None \<Rightarrow> None
      | Some ext \<Rightarrow>
          if ext \<notin> set SUPPORTED
          then Some (st\<lparr>error := ''Unsupported file type. Supported: '' @ join '', '' SUPPORTED\<rparr>)
          else Some (st\<lparr>error := '''', chosen_file := Some f\<rparr>))"

text \<open>
  \<open>handleUpload\<close> up to its request: nothing is sent without a chosen file, otherwise
  the chosen file is posted to \<open>/scans/upload\<close>.
  \<^verbatim>\<open>
  if (!file) return
  ...
  const { data } = await scansAPI.upload(file)
  \<close>
\<close>

definition upload_request :: "upload_state \<Rightarrow> js_file option" where
  "upload_request st = chosen_file st"

section \<open>The scan row and its life cycle\<close>

text \<open>The four statuses the pages know: the keys of \<open>STATUS_MAP\<close> and \<open>STATUS_ICON\<close>.\<close>

datatype scan_status = Pending | Running | Completed | Failed

fun status_key :: "scan_status \<Rightarrow> string" where
  "status_key Pending = ''pending''"
| "status_key Running = ''running''"
| "status_key Completed = ''completed''"
| "status_key Failed = ''failed''"

text \<open>
  Modelled from the spec: the backend's Scan table (the status column and the
  \<open>error_message\<close> column of a scan row) is not among the sources.
\<close>

record scan_row =
  row_status :: scan_status
  row_error_message :: "string option"

text \<open>
  Modelled from the spec: the backend operations that write a scan row (the scanner's
  background task) are not among the sources.  The spec gives the moves
  "pending \<rightarrow> running \<rightarrow> {completed, failed}" and "a single \<open>error_message\<close> string
  persisted on failed scan rows"; an operation requested in any other status leaves the
  row as it is.
\<close>

datatype scan_op = Start | Complete | Fail string

fun apply_op :: "scan_op \<Rightarrow> scan_row \<Rightarrow> scan_row" where
  "apply_op Start r = (if row_status r = Pending then r\<lparr>row_status := Running\<rparr> else r)"
| "apply_op Complete r = (if row_status r = Running then r\<lparr>row_status := Completed\<rparr> else r)"
| "apply_op (Fail msg) r =
     (if row_status r = Running
      then r\<lparr>row_status := Failed, row_error_message := Some msg\<rparr>
      else r)"

fun apply_ops :: "scan_op list \<Rightarrow> scan_row \<Rightarrow> scan_row" where
  "apply_ops [] r = r"
| "apply_ops (op # ops) r = apply_ops ops (apply_op op r)"

text \<open>Modelled from the spec: the row an upload creates (the upload handler is not among
  the sources): pending, with no error message.\<close>

definition new_row :: scan_row where
  "new_row = \<lparr>row_status = Pending, row_error_message = None\<rparr>"

text \<open>The order of the statuses along "pending \<rightarrow> running \<rightarrow> {completed, failed}".\<close>

fun status_rank :: "scan_status \<Rightarrow> nat" where
  "status_rank Pending = 0"
| "status_rank Running = 1"
| "status_rank Completed = 2"
| "status_rank Failed = 2"

definition terminal :: "scan_status \<Rightarrow> bool" where
  "terminal st = (st = Completed \<or> st = Failed)"

text \<open>The three moves of the spec, as a test on a pair of statuses.\<close>

fun forward_move :: "scan_status \<Rightarrow> scan_status \<Rightarrow> bool" where
  "forward_move Pending Running = True"
| "forward_move Running Completed = True"
| "forward_move Running Failed = True"
| "forward_move _ _ = False"

text \<open>Modelled from the spec: the scan object with which \<open>GET /scans/{id}\<close> answers for
  a row (the endpoint is not among the sources); the pages read its \<open>status\<close> and
  \<open>error_message\<close>.\<close>

definition row_view :: "nat \<Rightarrow> vulnerability list \<Rightarrow> scan_row \<Rightarrow> scan" where
  "row_view n vs r =
     \<lparr>scan_id = n, status = status_key (row_status r),
      error_message = row_error_message r, vulnerabilities = vs\<rparr>"

section \<open>Suppressing a vulnerability\<close>

text \<open>
  Modelled from the spec: the handler of
  \<open>PATCH /scans/{id}/vulnerabilities/{vid}/suppress\<close> is not among the sources.  The
  spec says "suppressing a vulnerability toggles a boolean", the endpoint table
  "Toggle suppression".
\<close>

definition toggle_suppressed :: "vulnerability \<Rightarrow> vulnerability" where
  "toggle_suppressed v = v\<lparr>is_suppressed := \<not> is_suppressed v\<rparr>"

definition suppress_endpoint :: "nat \<Rightarrow> scan \<Rightarrow> scan" where
  "suppress_endpoint vid s =
     s\<lparr>vulnerabilities :=
          map (\<lambda>v. if vuln_id v = vid then toggle_suppressed v else v) (vulnerabilities s)\<rparr>"

text \<open>
  ScanResults, \<open>handleSuppress\<close>: the request, then the refresh that replaces the page's
  scan by the server's.  The state is the server's scan and the scan the page shows.
  \<^verbatim>\<open>
  const handleSuppress = async (vulnId) => {
    await scansAPI.suppress(scan.id, vulnId)
    onRefresh()
  }
  \<close>
\<close>

definition handleSuppress :: "nat \<Rightarrow> scan \<times> scan \<Rightarrow> scan \<times> scan" where
  "handleSuppress vulnId st =
     (let server = suppress_endpoint vulnId (fst st) in (server, server))"

section \<open>The webhook receiver\<close>

text \<open>A JSON value, as far as the webhook body needs it.\<close>

datatype json = JNull | JBool bool | JNum int | JStr string | JObj "(string \<times> json) list"

text \<open>A JSON object is its list of members; a member is looked up by name.\<close>

type_synonym json_object = "(string \<times> json) list"

record webhook_payload =
  source :: string
  project_name :: string
  artifact_url :: "string option"
  metadata :: "json_object option"

text \<open>A member that must be a string, and members that may be absent or null.\<close>

definition required_string :: "json_object \<Rightarrow> string \<Rightarrow> string option" where
  "required_string body k = (case map_of body k of Some (JStr s) \<Rightarrow> Some s | _ \<Rightarrow> None)"

definition optional_string :: "json_object \<Rightarrow> string \<Rightarrow> string option option" where
  "optional_string body k =
     (case map_of body k of
        None \<Rightarrow> Some None
      | Some JNull \<Rightarrow> Some None
      | Some (JStr s) \<Rightarrow> Some (Some s)
      | Some _ \<Rightarrow> None)"

definition optional_object :: "json_object \<Rightarrow> string \<Rightarrow> json_object option option" where
  "optional_object body k =
     (case map_of body k of
        None \<Rightarrow> Some None
      | Some JNull \<Rightarrow> Some None
      | Some (JObj ms) \<Rightarrow> Some (Some ms)
      | Some _ \<Rightarrow> None)"

text \<open>
  Modelled from the spec: the handler of \<open>POST /api/integrations/webhook/{token}\<close> is
  not among the sources.  It reads the body \<open>{source, project_name, artifact_url,
  metadata}\<close>; the guide on IntegrationsPage marks \<open>artifact_url\<close> and \<open>metadata\<close> as
  optional.  \<open>Inl\<close> is the status of the refusal, \<open>Inr\<close> the payload read.
\<close>

definition webhook_receive :: "json_object \<Rightarrow> nat + webhook_payload" where
  "webhook_receive body =
     (case required_string body ''source'' of
        None \<Rightarrow> Inl 422
      | Some src \<Rightarrow>
     (case required_string body ''project_name'' of
        None \<Rightarrow> Inl 422
      | Some pn \<Rightarrow>
     (case optional_string body ''artifact_url'' of
        None \<Rightarrow> Inl 422
      | Some url \<Rightarrow>
     (case optional_object body ''metadata'' of
        None \<Rightarrow> Inl 422
      | Some md \<Rightarrow>
          Inr \<lparr>source = src, project_name = pn, artifact_url = url, metadata = md\<rparr>))))"

text \<open>
  The schema in the words of the spec and of the guide: \<open>source\<close> and \<open>project_name\<close>
  are there and are strings, \<open>artifact_url\<close> is a string when it is there, \<open>metadata\<close>
  an object when it is there.
\<close>

definition is_string :: "json \<Rightarrow> bool" where
  "is_string j = (case j of JStr _ \<Rightarrow> True | _ \<Rightarrow> False)"

definition is_object :: "json \<Rightarrow> bool" where
  "is_object j = (case j of JObj _ \<Rightarrow> True | _ \<Rightarrow> False)"

definition matches_schema :: "json_object \<Rightarrow> bool" where
  "matches_schema body =
     ((case map_of body ''source'' of None \<Rightarrow> False | Some j \<Rightarrow> is_string j) \<and>
      (case map_of body ''project_name'' of None \<Rightarrow> False | Some j \<Rightarrow> is_string j) \<and>
      (case map_of body ''artifact_url'' of None \<Rightarrow> True | Some j \<Rightarrow> is_string j) \<and>
      (case map_of body ''metadata'' of None \<Rightarrow> True | Some j \<Rightarrow> is_object j))"

text \<open>The payload of the guide on IntegrationsPage, and the one of the README's \<open>curl\<close>
  call (no metadata).\<close>

definition guide_payload :: json_object where
  "guide_payload =
     [(''source'', JStr ''jenkins''), (''project_name'', JStr ''my-app''),
      (''artifact_url'', JStr ''https://...''), (''metadata'', JObj [])]"

definition readme_payload :: json_object where
  "readme_payload =
     [(''source'', JStr ''jenkins''), (''project_name'', JStr ''my-app-v1.2.3''),
      (''artifact_url'', JStr ''https://your-nexus/my-app-1.2.3.jar'')]"

section \<open>build-msi.ps1\<close>

text \<open>
  \<^verbatim>\<open>
  param(
      [switch]$SkipFrontendBuild,
      [switch]$SkipPyInstaller,
      [switch]$SkipDownloads,
      [string]$Version = "1.0.0"
  )
  \<close>
\<close>

record build_params =
  SkipFrontendBuild :: bool
  SkipPyInstaller :: bool
  SkipDownloads :: bool
  Version :: string

definition default_params :: build_params where
  "default_params =
     \<lparr>SkipFrontendBuild = False, SkipPyInstaller = False, SkipDownloads = False,
      Version = ''1.0.0''\<rparr>"

text \<open>\<open>Join-Path\<close>: the two parts with a backslash between them.\<close>

definition Join_Path :: "string \<Rightarrow> string \<Rightarrow> string" where
  "Join_Path a b = a @ [CHR 0x5C] @ b"

text \<open>The paths of the script, from \<open>$Root = $PSScriptRoot\<close>.\<close>

definition BackendDir :: "string \<Rightarrow> string" where
  "BackendDir root = Join_Path root ''backend''"

definition FrontendDir :: "string \<Rightarrow> string" where
  "FrontendDir root = Join_Path root ''frontend''"

definition InstallerDir :: "string \<Rightarrow> string" where
  "InstallerDir root = Join_Path root ''installer''"

definition WiXDir :: "string \<Rightarrow> string" where
  "WiXDir root = Join_Path (InstallerDir root) ''_wix''"

definition OWASPDCDir :: "string \<Rightarrow> string" where
  "OWASPDCDir root = Join_Path (InstallerDir root) ''dependency-check''"

definition PyDistDir :: "string \<Rightarrow> string" where
  "PyDistDir root = Join_Path (Join_Path (BackendDir root) ''dist'') ''owasp-scanner''"

definition JRETmp :: "string \<Rightarrow> string" where
  "JRETmp root = Join_Path (InstallerDir root) ''_jre_tmp''"

text \<open>\<^verbatim>\<open>$MsiOut = Join-Path $Root "owasp-scanner-$Version.msi"\<close>\<close>

definition MsiOut :: "string \<Rightarrow> build_params \<Rightarrow> string" where
  "MsiOut root p = Join_Path root (''owasp-scanner-'' @ Version p @ ''.msi'')"

text \<open>
  The script is a straight line of tests and external commands.  What the machine
  answers at each of them is the environment of a run: one boolean per place where the
  script asks (\<open>True\<close>: the path is there, the command is found, the command exits with
  code 0, the cmdlet raises no error).  The housekeeping cmdlets (\<open>New-Item\<close>,
  \<open>Remove-Item\<close>, \<open>Push-Location\<close>, \<open>Pop-Location\<close>, \<open>Write-Host\<close>) are taken to go
  through.
\<close>

datatype archive = WiXZip | JREZip | OWASPDCZip

datatype wix_exe = HeatExe | CandleExe | LightExe

datatype tool = Python | Node | Npm

datatype harvest = AppFileComponents | JREComponents | OWASPDCComponents

datatype probe =
  WixOnPath                \<comment> \<open>\<open>Get-Command\<close> finds heat.exe, candle.exe and light.exe\<close>
| Cached archive           \<comment> \<open>\<open>Test-Path $Dest\<close> in \<open>Download\<close>\<close>
| Downloaded archive       \<comment> \<open>\<open>Invoke-WebRequest\<close> raises no error\<close>
| Expanded archive         \<comment> \<open>\<open>Expand-Archive\<close> raises no error\<close>
| ExeExtracted wix_exe     \<comment> \<open>\<open>Test-Path $exe\<close> after extracting WiX\<close>
| OnPath tool              \<comment> \<open>\<open>Get-Command $cmd\<close>\<close>
| VenvPythonExists         \<comment> \<open>\<open>Test-Path $PythonExe\<close>\<close>
| VenvCreated              \<comment> \<open>\<open>python -m venv\<close> exits with 0\<close>
| PipUpgraded              \<comment> \<open>\<open>pip install --upgrade pip\<close> exits with 0\<close>
| PyInstallerInstalled     \<comment> \<open>\<open>pip install pyinstaller\<close> exits with 0\<close>
| RequirementsInstalled    \<comment> \<open>\<open>pip install -r requirements.txt\<close> exits with 0\<close>
| NpmInstalled             \<comment> \<open>\<open>npm install --silent\<close> exits with 0\<close>
| NpmBuilt                 \<comment> \<open>\<open>npm run build\<close> exits with 0\<close>
| FrontendDistExists       \<comment> \<open>\<open>Test-Path (Join-Path $FrontendDir "dist")\<close>\<close>
| PyInstallerRan           \<comment> \<open>\<open>pyinstaller owasp-scanner.spec\<close> exits with 0\<close>
| PyDistExists             \<comment> \<open>\<open>Test-Path $PyDistDir\<close>\<close>
| JreDirExtracted          \<comment> \<open>\<open>Get-ChildItem -Directory\<close> finds a directory under \<open>$JRETmp\<close>\<close>
| JreMoved                 \<comment> \<open>\<open>Move-Item\<close> raises no error\<close>
| OwaspDcDirExists         \<comment> \<open>\<open>Test-Path $OWASPDCDir\<close> after extraction\<close>
| Harvested harvest        \<comment> \<open>\<open>heat.exe\<close> exits with 0\<close>
| Rewritten harvest        \<comment> \<open>reading, prefixing and saving the harvested XML raises no error\<close>
| Candled                  \<comment> \<open>\<open>candle.exe\<close> exits with 0\<close>
| Linked                   \<comment> \<open>\<open>light.exe ... -out $MsiOut\<close> exits with 0\<close>
| MsiFound                 \<comment> \<open>\<open>Get-Item $MsiOut\<close> raises no error\<close>

type_synonym build_env = "probe \<Rightarrow> bool"

text \<open>
  How a run ends: \<open>Exit1\<close> is \<open>Fail\<close> (the message is written and the script does
  \<open>exit 1\<close>); \<open>Threw\<close> is the terminating error of a cmdlet under
  \<open>$ErrorActionPreference = "Stop"\<close>; \<open>Built\<close> is the end of the script, with the path
  of the MSI that \<open>light.exe\<close> wrote.
\<close>

datatype build_end = Exit1 string | Threw probe | Built string

text \<open>A step either goes through (\<open>None\<close>) or ends the run.\<close>

definition require :: "bool \<Rightarrow> build_end \<Rightarrow> build_end option" where
  "require ok e = (if ok then None else Some e)"

fun first_stop :: "build_end option list \<Rightarrow> build_end option" where
  "first_stop [] = None"
| "first_stop (None # steps) = first_stop steps"
| "first_stop (Some e # steps) = Some e"

text \<open>
  \<^verbatim>\<open>
  function Download {
      param([string]$Url, [string]$Dest)
      if (Test-Path $Dest) { OK "Already cached: ..."; return }
      Invoke-WebRequest -Uri $Url -OutFile $Dest -UseBasicParsing
  }
  \<close>
  and its call sites, \<^verbatim>\<open>if (-not $SkipDownloads) { Download ... }\<close>.
\<close>

definition Download :: "build_env \<Rightarrow> archive \<Rightarrow> build_end option" where
  "Download env a =
     (if env (Cached a) then None else require (env (Downloaded a)) (Threw (Downloaded a)))"

definition download_unless_skipped :: "build_params \<Rightarrow> build_env \<Rightarrow> archive \<Rightarrow> build_end option" where
  "download_unless_skipped p env a = (if \<not> SkipDownloads p then Download env a else None)"

definition exe_name :: "wix_exe \<Rightarrow> string" where
  "exe_name x = (case x of HeatExe \<Rightarrow> ''heat.exe'' | CandleExe \<Rightarrow> ''candle.exe''
                 | LightExe \<Rightarrow> ''light.exe'')"

definition exe_extracted :: "string \<Rightarrow> build_env \<Rightarrow> wix_exe \<Rightarrow> build_end option" where
  "exe_extracted root env x =
     require (env (ExeExtracted x))
       (Exit1 (Join_Path (WiXDir root) (exe_name x) @ '' not found after extracting WiX.''))"

text \<open>"Locating WiX Toolset v3"\<close>

definition locate_wix :: "string \<Rightarrow> build_params \<Rightarrow> build_env \<Rightarrow> build_end option" where
  "locate_wix root p env =
     (if \<not> env WixOnPath
      then first_stop
             [download_unless_skipped p env WiXZip,
              require (env (Expanded WiXZip)) (Threw (Expanded WiXZip)),
              exe_extracted root env HeatExe,
              exe_extracted root env CandleExe,
              exe_extracted root env LightExe]
      else None)"

text \<open>"Checking Python and Node.js"\<close>

definition tool_name :: "tool \<Rightarrow> string" where
  "tool_name t = (case t of Python \<Rightarrow> ''python'' | Node \<Rightarrow> ''node'' | Npm \<Rightarrow> ''npm'')"

definition check_tool :: "build_env \<Rightarrow> tool \<Rightarrow> build_end option" where
  "check_tool env t =
     require (env (OnPath t))
       (Exit1 (tool_name t @ '' not found on PATH.  Install Python 3.11+ and Node.js 20+.''))"

definition check_tools :: "build_env \<Rightarrow> build_end option" where
  "check_tools env = first_stop (map (check_tool env) [Python, Node, Npm])"

text \<open>"Setting up build virtual environment" up to "Installing backend dependencies"\<close>

definition build_venv :: "build_env \<Rightarrow> build_end option" where
  "build_venv env =
     first_stop
       [if \<not> env VenvPythonExists
        then require (env VenvCreated) (Exit1 ''Failed to create build venv'')
        else None,
        require (env PipUpgraded) (Exit1 ''pip upgrade failed''),
        require (env PyInstallerInstalled) (Exit1 ''pip install pyinstaller failed''),
        require (env RequirementsInstalled) (Exit1 ''pip install -r requirements.txt failed'')]"

text \<open>
  The frontend build:
  \<^verbatim>\<open>
  if (-not $SkipFrontendBuild) {
      & npm install --silent
      if ($LASTEXITCODE -ne 0) { Fail "npm install failed" }
      & npm run build
      if ($LASTEXITCODE -ne 0) { Fail "npm run build failed" }
  } else {
      Warn "Skipping frontend build"
      if (-not (Test-Path (Join-Path $FrontendDir "dist"))) {
          Fail "frontend/dist missing -- run without -SkipFrontendBuild first."
      }
  }
  \<close>
\<close>

definition frontend_build :: "build_params \<Rightarrow> build_env \<Rightarrow> build_end option" where
  "frontend_build p env =
     (if \<not> SkipFrontendBuild p
      then first_stop
             [require (env NpmInstalled) (Exit1 ''npm install failed''),
              require (env NpmBuilt) (Exit1 ''npm run build failed'')]
      else require (env FrontendDistExists)
             (Exit1 ''frontend/dist missing -- run without -SkipFrontendBuild first.''))"

text \<open>
  PyInstaller:
  \<^verbatim>\<open>
  if (-not $SkipPyInstaller) {
      & $PyInstExe owasp-scanner.spec --noconfirm
      if ($LASTEXITCODE -ne 0) { Fail "PyInstaller failed" }
  } else {
      Warn "Skipping PyInstaller"
      if (-not (Test-Path $PyDistDir)) {
          Fail "PyInstaller output missing -- run without -SkipPyInstaller first."
      }
  }
  \<close>
\<close>

definition pyinstaller_bundle :: "build_params \<Rightarrow> build_env \<Rightarrow> build_end option" where
  "pyinstaller_bundle p env =
     (if \<not> SkipPyInstaller p
      then require (env PyInstallerRan) (Exit1 ''PyInstaller failed'')
      else require (env PyDistExists)
             (Exit1 ''PyInstaller output missing -- run without -SkipPyInstaller first.''))"

text \<open>"Staging Eclipse Temurin JRE 21 LTS"\<close>

definition stage_jre :: "string \<Rightarrow> build_params \<Rightarrow> build_env \<Rightarrow> build_end option" where
  "stage_jre root p env =
     first_stop
       [download_unless_skipped p env JREZip,
        require (env (Expanded JREZip)) (Threw (Expanded JREZip)),
        require (env JreDirExtracted)
          (Exit1 (''Could not find extracted JRE directory under '' @ JRETmp root)),
        require (env JreMoved) (Threw JreMoved)]"

text \<open>"Staging OWASP Dependency Check"\<close>

definition stage_owasp_dc :: "string \<Rightarrow> build_params \<Rightarrow> build_env \<Rightarrow> build_end option" where
  "stage_owasp_dc root p env =
     first_stop
       [download_unless_skipped p env OWASPDCZip,
        require (env (Expanded OWASPDCZip)) (Threw (Expanded OWASPDCZip)),
        require (env OwaspDcDirExists)
          (Exit1 (''Expected '' @ OWASPDCDir root @ '' after extraction.''))]"

text \<open>The function \<open>Heat\<close>: \<open>heat.exe\<close>, then the rewriting of the ids in its output.\<close>

definition CgId :: "harvest \<Rightarrow> string" where
  "CgId h = (case h of AppFileComponents \<Rightarrow> ''AppFileComponents''
             | JREComponents \<Rightarrow> ''JREComponents'' | OWASPDCComponents \<Rightarrow> ''OWASPDCComponents'')"

definition Heat :: "build_env \<Rightarrow> harvest \<Rightarrow> build_end option" where
  "Heat env h =
     first_stop
       [require (env (Harvested h)) (Exit1 (''heat.exe failed for '' @ CgId h)),
        require (env (Rewritten h)) (Threw (Rewritten h))]"

definition harvest_all :: "build_env \<Rightarrow> build_end option" where
  "harvest_all env =
     first_stop (map (Heat env) [AppFileComponents, JREComponents, OWASPDCComponents])"

text \<open>\<open>candle.exe\<close>, \<open>light.exe -out $MsiOut\<close>, and \<open>Get-Item $MsiOut\<close> for the size.\<close>

definition compile_and_link :: "build_env \<Rightarrow> build_end option" where
  "compile_and_link env =
     first_stop
       [require (env Candled) (Exit1 ''candle.exe failed''),
        require (env Linked) (Exit1 ''light.exe failed''),
        require (env MsiFound) (Threw MsiFound)]"

text \<open>The steps in the order of the script, up to the frontend build and up to
  PyInstaller, and the whole script.\<close>

definition before_frontend :: "string \<Rightarrow> build_params \<Rightarrow> build_env \<Rightarrow> build_end option" where
  "before_frontend root p env = first_stop [locate_wix root p env, check_tools env, build_venv env]"

definition before_pyinstaller :: "string \<Rightarrow> build_params \<Rightarrow> build_env \<Rightarrow> build_end option" where
  "before_pyinstaller root p env = first_stop [before_frontend root p env, frontend_build p env]"

definition build_msi :: "string \<Rightarrow> build_params \<Rightarrow> build_env \<Rightarrow> build_end" where
  "build_msi root p env =
     (case first_stop
             [before_pyinstaller root p env,
              pyinstaller_bundle p env,
              stage_jre root p env,
              stage_owasp_dc root p env,
              harvest_all env,
              compile_and_link env] of
        Some e \<Rightarrow> e
      | None \<Rightarrow> Built (MsiOut root p))"

text \<open>The environment in which everything is there and every command succeeds.\<close>

definition all_fine :: build_env where
  "all_fine = (\<lambda>q. True)"

section \<open>Runs: what a script or a handler attempts\<close>

text \<open>
  An operation is a call that can fail: an external program, a cmdlet or library call
  that touches the file system or the network, an HTTP request.  Messages, prompts,
  pauses, delays and changes of the current directory are not operations.  A call site
  is the line of the source file and the text of the call (paths are written with
  \<open>/\<close>).

  A world says what the machine answers in one run: the answer of every test the code
  makes (\<open>Test-Path\<close>, \<open>Get-Command\<close>, \<open>if exist\<close>, \<open>confirm\<close>) and the outcome of
  every operation.  \<open>Failure\<close> is a failure the code could look at (an exit code
  other than 0, a rejected promise, an error of a cmdlet); \<open>Abort\<close> is one that it
  could not (the program is not found, which PowerShell raises as a terminating error).
\<close>

datatype outcome = Success | Failure | Abort

type_synonym site = "nat \<times> string"

record world =
  answers :: "site \<Rightarrow> bool"
  results :: "site \<Rightarrow> outcome"

text \<open>
  How a piece of code ends: it goes on to what follows (at the end of a script: the
  script ran to its end), it exits with a code, it is stopped by an error nothing
  catches, or the handler returns.
\<close>

datatype ending = Going | Exit nat | Stopped | Returned

type_synonym run = "(site \<times> outcome) list \<times> ending"

text \<open>One operation: it is attempted, and its outcome decides how the code goes on.\<close>

definition op_step :: "ending \<Rightarrow> ending \<Rightarrow> site \<Rightarrow> world \<Rightarrow> run" where
  "op_step on_failure on_abort s w =
     ([(s, results w s)],
      case results w s of Success \<Rightarrow> Going | Failure \<Rightarrow> on_failure | Abort \<Rightarrow> on_abort)"

text \<open>
  The ways the sources call an operation:
  \<^item> \<open>program\<close>: an external program whose exit code is not looked at;
  \<^item> \<open>program_checked\<close>: an external program followed by
    \<^verbatim>\<open>if ($LASTEXITCODE -ne 0) { ...; exit 1 }\<close> (also through \<open>Fail\<close>);
  \<^item> \<open>raising\<close>: a call whose error nothing catches: a cmdlet under
    \<^verbatim>\<open>$ErrorActionPreference = 'Stop'\<close>, a call of a Python build script, an awaited
    request outside \<open>try\<close> or in \<open>try ... finally\<close>;
  \<^item> \<open>swallowed\<close>: a call whose failure is dropped: a command of a batch file, a
    cmdlet with \<open>-ErrorAction SilentlyContinue\<close>, a request whose \<open>catch\<close> only
    records the error;
  \<^item> \<open>caught_exit\<close>: a call in \<^verbatim>\<open>try { } catch { ...; exit 1 }\<close>, or a batch command
    followed by \<^verbatim>\<open>if errorlevel 1 ( ... exit /b 1 )\<close>;
  \<^item> \<open>caught_return\<close>: an awaited request in \<open>try ... catch\<close>: after the \<open>catch\<close>
    the handler is over.
\<close>

definition program :: "site \<Rightarrow> world \<Rightarrow> run" where
  "program = op_step Going Stopped"

definition program_checked :: "site \<Rightarrow> world \<Rightarrow> run" where
  "program_checked = op_step (Exit 1) Stopped"

definition raising :: "site \<Rightarrow> world \<Rightarrow> run" where
  "raising = op_step Stopped Stopped"

definition swallowed :: "site \<Rightarrow> world \<Rightarrow> run" where
  "swallowed = op_step Going Going"

definition caught_exit :: "site \<Rightarrow> world \<Rightarrow> run" where
  "caught_exit = op_step (Exit 1) (Exit 1)"

definition caught_return :: "site \<Rightarrow> world \<Rightarrow> run" where
  "caught_return = op_step Returned Returned"

text \<open>Nothing to attempt, and the end of the code with a given ending.\<close>

definition skip :: "world \<Rightarrow> run" where
  "skip w = ([], Going)"

definition finish :: "ending \<Rightarrow> world \<Rightarrow> run" where
  "finish e w = ([], e)"

text \<open>Statements in sequence: the next one runs when the one before goes on.\<close>

fun in_turn :: "(world \<Rightarrow> run) list \<Rightarrow> world \<Rightarrow> run" where
  "in_turn [] w = ([], Going)"
| "in_turn (s # ss) w =
     (case s w of
        (t, Going) \<Rightarrow> (case in_turn ss w of (t', e) \<Rightarrow> (t @ t', e))
      | (t, e) \<Rightarrow> (t, e))"

text \<open>A branch on a test of the world.\<close>

definition if_test :: "site \<Rightarrow> (world \<Rightarrow> run) \<Rightarrow> (world \<Rightarrow> run) \<Rightarrow> world \<Rightarrow> run" where
  "if_test q a b w = (if answers w q then a w else b w)"

text \<open>A call that is not awaited: what it attempts is attempted, and the caller goes on
  whatever becomes of it.\<close>

definition unawaited :: "(world \<Rightarrow> run) \<Rightarrow> world \<Rightarrow> run" where
  "unawaited p w = (fst (p w), Going)"

text \<open>
  The world with the same answers in which every operation succeeds, and the call
  sites a run attempts, in order.  A failure only cuts a run short when what the
  code attempts is an initial part of what it attempts, with the same answers, when
  nothing fails: the failure is ignored or ends the run, and adds no attempt and
  changes none.  A retry, a fallback or a recovery step is an attempt that the run
  without failures does not have at that place.
\<close>

definition happy :: "world \<Rightarrow> world" where
  "happy w = w\<lparr>results := (\<lambda>s. Success)\<rparr>"

definition labels :: "run \<Rightarrow> site list" where
  "labels r = map fst (fst r)"

definition cut_short :: "(world \<Rightarrow> run) \<Rightarrow> world \<Rightarrow> bool" where
  "cut_short p w = prefix (labels (p w)) (labels (p (happy w)))"

text \<open>The same, and moreover: code that goes on has attempted all that it attempts when
  nothing fails (this is what carries over to a sequence).\<close>

definition like_happy :: "(world \<Rightarrow> run) \<Rightarrow> world \<Rightarrow> bool" where
  "like_happy p w =
     (prefix (labels (p w)) (labels (p (happy w))) \<and>
      (snd (p w) = Going \<longrightarrow> labels (p w) = labels (p (happy w)) \<and> snd (p (happy w)) = Going))"

section \<open>setup-windows.bat and start-windows.bat\<close>

text \<open>
  \<^verbatim>\<open>
  net session >nul 2>&1
  if errorlevel 1 ( ... pause & exit /b 1 )
  powershell.exe -NoProfile -ExecutionPolicy Bypass -File "%~dp0setup-windows.ps1"
  if errorlevel 1 ( ... pause & exit /b 1 )
  pause
  \<close>
  \<open>net session\<close> is the script's test for administrator rights.
\<close>

definition setup_windows_bat_run :: "world \<Rightarrow> run" where
  "setup_windows_bat_run =
     if_test (9, ''net session'')
       (caught_exit (19, ''powershell.exe -File setup-windows.ps1''))
       (finish (Exit 1))"

text \<open>
  \<^verbatim>\<open>
  if not exist "%ROOT%backend\.venv\Scripts\uvicorn.exe" ( ... exit /b 1 )
  if not exist "%ROOT%frontend\node_modules" ( ... exit /b 1 )
  start "..." cmd /k "cd /d %ROOT%backend && ... uvicorn app.main:app --reload --port 8000"
  timeout /t 2 /nobreak >nul
  start "..." cmd /k "cd /d %ROOT%frontend && ... npm run dev"
  timeout /t 4 /nobreak >nul
  start http://localhost:3000
  \<close>
\<close>

definition start_windows_bat_run :: "world \<Rightarrow> run" where
  "start_windows_bat_run =
     if_test (11, ''exist backend/.venv/Scripts/uvicorn.exe'')
       (if_test (20, ''exist frontend/node_modules'')
          (in_turn [swallowed (33, ''start cmd /k uvicorn app.main:app --reload --port 8000''),
                  swallowed (39, ''start cmd /k npm run dev''),
                  swallowed (43, ''start http://localhost:3000'')])
          (finish (Exit 1)))
       (finish (Exit 1))"

section \<open>setup-windows.ps1\<close>

text \<open>
  The script sets \<^verbatim>\<open>$ErrorActionPreference = 'Stop'\<close>.
  \<^verbatim>\<open>
  function Ensure-Package {
      param($WingetId, $DisplayName, $TestCmd)
      if (Get-Command $TestCmd -ErrorAction SilentlyContinue) {
          $ver = (& $TestCmd --version 2>&1) | Select-Object -First 1
          Write-OK "$DisplayName already installed: $ver"
          return
      }
      Write-Info "Installing $DisplayName via winget..."
      winget install --id $WingetId --silent --accept-package-agreements --accept-source-agreements
      if ($LASTEXITCODE -ne 0) {
          Write-Err "winget install failed for $DisplayName. Install manually then re-run."
          exit 1
      }
      ...
  }
  \<close>
\<close>

definition Ensure_Package_run :: "string \<Rightarrow> string \<Rightarrow> string \<Rightarrow> world \<Rightarrow> run" where
  "Ensure_Package_run WingetId DisplayName TestCmd =
     if_test (29, ''Get-Command '' @ TestCmd)
       (program (30, TestCmd @ '' --version''))
       (program_checked (35, ''winget install --id '' @ WingetId))"

text \<open>Step 1, "Checking prerequisites": \<open>winget\<close> must be there; the three packages; the
  three version lines.\<close>

definition prerequisites_run :: "world \<Rightarrow> run" where
  "prerequisites_run =
     in_turn
       [if_test (55, ''Get-Command winget'') skip (finish (Exit 1)),
        Ensure_Package_run ''Python.Python.3.12'' ''Python 3.12'' ''python'',
        Ensure_Package_run ''OpenJS.NodeJS.LTS'' ''Node.js LTS'' ''node'',
        Ensure_Package_run ''EclipseAdoptium.Temurin.21.JDK'' ''Java 21 (Temurin)'' ''java'',
        program (64, ''python --version''),
        program (65, ''node --version''),
        program (66, ''java -version'')]"

text \<open>
  Step 2, "Setting up OWASP Dependency Check":
  \<^verbatim>\<open>
  if (Test-Path $dcBat) { ... } else {
      try { Invoke-WebRequest -Uri $zipUrl -OutFile $zipPath -UseBasicParsing }
      catch { ...; exit 1 }
      Expand-Archive -Path $zipPath -DestinationPath "C:\" -Force
      Remove-Item $zipPath -Force
      if (-not (Test-Path $dcBat)) { ...; exit 1 }
  }
  \<close>
\<close>

definition dependency_check_run :: "world \<Rightarrow> run" where
  "dependency_check_run =
     if_test (75, ''Test-Path $dcBat'')
       skip
       (in_turn
          [caught_exit (83, ''Invoke-WebRequest -Uri $zipUrl -OutFile $zipPath''),
           raising (92, ''Expand-Archive -Path $zipPath''),
           raising (93, ''Remove-Item $zipPath''),
           if_test (95, ''Test-Path $dcBat'') skip (finish (Exit 1))])"

text \<open>Step 3, "Creating application directories": for each of the four directories,
  \<^verbatim>\<open>if (-not (Test-Path $dir)) { New-Item -ItemType Directory -Path $dir -Force }\<close>.\<close>

definition make_directory_run :: "string \<Rightarrow> world \<Rightarrow> run" where
  "make_directory_run dir =
     if_test (106, ''Test-Path '' @ dir) skip (raising (107, ''New-Item -Path '' @ dir))"

definition directories_run :: "world \<Rightarrow> run" where
  "directories_run =
     in_turn (map make_directory_run [''$UPLOAD_DIR'', ''$REPORT_DIR'', ''$DC_DATA'', ''$DATA_DIR''])"

text \<open>
  Step 4, "Setting up Python backend".  The exit codes of \<open>python -m venv\<close> and of the
  upgrade of pip are not looked at; a program that is not found stops the script.
  \<^verbatim>\<open>
  if (-not (Test-Path $venvPy)) {
      python -m venv $venvPath
  }
  & $venvPip install --upgrade pip --quiet
  & $venvPip install -r (Join-Path $ROOT "backend\requirements.txt") --quiet
  if ($LASTEXITCODE -ne 0) {
      Write-Info "Retrying with prebuilt wheels only..."
      & $venvPip install -r (Join-Path $ROOT "backend\requirements.txt") --only-binary ":all:" --quiet
      if ($LASTEXITCODE -ne 0) {
          Write-Err "pip install failed. Check output above."
          exit 1
      }
  }
  \<close>
\<close>

definition venv_test :: site where
  "venv_test = (121, ''Test-Path $venvPy'')"

definition venv_create :: site where
  "venv_create = (123, ''python -m venv $venvPath'')"

definition pip_upgrade :: site where
  "pip_upgrade = (130, ''pip install --upgrade pip'')"

definition pip_install :: site where
  "pip_install = (133, ''pip install -r requirements.txt'')"

definition pip_retry :: site where
  "pip_retry = (136, ''pip install -r requirements.txt --only-binary :all:'')"

text \<open>Lines 133 to 141: the installation, and its second attempt when the first exits
  with a code other than 0.\<close>

definition install_requirements_run :: "world \<Rightarrow> run" where
  "install_requirements_run w =
     (case results w pip_install of
        Success \<Rightarrow> ([(pip_install, Success)], Going)
      | Abort \<Rightarrow> ([(pip_install, Abort)], Stopped)
      | Failure \<Rightarrow>
          (case results w pip_retry of
             Success \<Rightarrow> ([(pip_install, Failure), (pip_retry, Success)], Going)
           | Failure \<Rightarrow> ([(pip_install, Failure), (pip_retry, Failure)], Exit 1)
           | Abort \<Rightarrow> ([(pip_install, Failure), (pip_retry, Abort)], Stopped)))"

definition python_backend_run :: "world \<Rightarrow> run" where
  "python_backend_run =
     in_turn
       [if_test venv_test skip (program venv_create),
        program pip_upgrade,
        install_requirements_run]"

text \<open>
  Step 5, "Installing frontend npm packages":
  \<^verbatim>\<open>
  try {
      npm install 2>&1 | Out-Null
      if ($LASTEXITCODE -ne 0) { throw "npm install exited with code $LASTEXITCODE" }
  } catch { Pop-Location; ...; exit 1 }
  \<close>
\<close>

definition npm_packages_run :: "world \<Rightarrow> run" where
  "npm_packages_run = caught_exit (150, ''npm install'')"

text \<open>
  Step 6, "Configuring environment file":
  \<^verbatim>\<open>
  if (Test-Path $envPath) { ... } else {
      $secretKey = & $venvPy -c "import secrets; print(secrets.token_hex(32))"
      $anthropicKey = Read-Host "  Enter ANTHROPIC_API_KEY"
      ...
      $lines | Set-Content -Path $envPath -Encoding UTF8
      Write-OK "SECRET_KEY prefix: $($secretKey.Substring(0, 8))..."
  }
  \<close>
\<close>

definition env_file_run :: "world \<Rightarrow> run" where
  "env_file_run =
     if_test (165, ''Test-Path $envPath'')
       skip
       (in_turn
          [program (168, ''python -c import secrets; print(secrets.token_hex(32))''),
           raising (207, ''Set-Content -Path $envPath''),
           raising (209, ''$secretKey.Substring(0, 8)'')])"

text \<open>Step 7, "Verifying installation", makes six tests with \<open>Test-Path\<close> and writes
  their results: it attempts nothing.  The script in the order of its steps:\<close>

definition setup_windows_ps1_run :: "world \<Rightarrow> run" where
  "setup_windows_ps1_run =
     in_turn
       [prerequisites_run,
        dependency_check_run,
        directories_run,
        python_backend_run,
        npm_packages_run,
        env_file_run]"

section \<open>The build scripts as runs\<close>

text \<open>
  \<open>build-msi.ps1\<close> with \<open>-SkipDownloads\<close> once more, this time with every operation it
  attempts, the removals and the reading and writing of files included.  \<open>Fail\<close> writes
  its message and does \<open>exit 1\<close>.
\<close>

definition Fail_run :: "world \<Rightarrow> run" where
  "Fail_run = finish (Exit 1)"

text \<open>\<^verbatim>\<open>if (Test-Path $Dest) { ...; return }\<close>, then \<open>Invoke-WebRequest\<close>.\<close>

definition Download_run :: "string \<Rightarrow> world \<Rightarrow> run" where
  "Download_run dest =
     if_test (54, ''Test-Path '' @ dest) skip (raising (56, ''Invoke-WebRequest -OutFile '' @ dest))"

definition download_unless_skipped_run :: "build_params \<Rightarrow> string \<Rightarrow> world \<Rightarrow> run" where
  "download_unless_skipped_run p dest = (if \<not> SkipDownloads p then Download_run dest else skip)"

text \<open>\<^verbatim>\<open>if (Test-Path $X) { Remove-Item $X -Recurse -Force }\<close> on a given line.\<close>

definition remove_if_there :: "nat \<Rightarrow> string \<Rightarrow> world \<Rightarrow> run" where
  "remove_if_there line path =
     if_test (line, ''Test-Path '' @ path) (raising (line, ''Remove-Item '' @ path)) skip"

text \<open>"Locating WiX Toolset v3": when one of the three tools is not on the path, the
  binaries are downloaded and extracted, and each tool must then be there.\<close>

definition bootstrap_wix_run :: "build_params \<Rightarrow> world \<Rightarrow> run" where
  "bootstrap_wix_run p =
     in_turn
       [download_unless_skipped_run p ''$WiXZip'',
        remove_if_there 100 ''$WiXDir'',
        raising (101, ''Expand-Archive -Path $WiXZip''),
        in_turn (map (\<lambda>exe. if_test (109, ''Test-Path '' @ exe) skip Fail_run)
                 [''$WiXDir/heat.exe'', ''$WiXDir/candle.exe'', ''$WiXDir/light.exe''])]"

definition locate_wix_run :: "build_params \<Rightarrow> world \<Rightarrow> run" where
  "locate_wix_run p =
     if_test (91, ''Get-Command heat.exe'')
       (if_test (92, ''Get-Command candle.exe'')
          (if_test (93, ''Get-Command light.exe'') skip (bootstrap_wix_run p))
          (bootstrap_wix_run p))
       (bootstrap_wix_run p)"

definition check_tools_run :: "world \<Rightarrow> run" where
  "check_tools_run =
     in_turn (map (\<lambda>cmd. if_test (120, ''Get-Command '' @ cmd) skip Fail_run)
              [''python'', ''node'', ''npm''])"

definition build_venv_run :: "world \<Rightarrow> run" where
  "build_venv_run =
     in_turn
       [if_test (133, ''Test-Path $PythonExe'') skip
          (program_checked (134, ''python -m venv $BuildVenv'')),
        program_checked (142, ''python -m pip install --upgrade pip''),
        program_checked (146, ''python -m pip install pyinstaller''),
        program_checked (151, ''python -m pip install -r requirements.txt'')]"

definition frontend_build_run :: "build_params \<Rightarrow> world \<Rightarrow> run" where
  "frontend_build_run p =
     (if \<not> SkipFrontendBuild p
      then in_turn [program_checked (159, ''npm install''), program_checked (161, ''npm run build'')]
      else if_test (167, ''Test-Path frontend/dist'') skip Fail_run)"

definition pyinstaller_bundle_run :: "build_params \<Rightarrow> world \<Rightarrow> run" where
  "pyinstaller_bundle_run p =
     (if \<not> SkipPyInstaller p
      then in_turn
             [remove_if_there 176 ''build'',
              remove_if_there 177 ''dist'',
              program_checked (178, ''pyinstaller owasp-scanner.spec'')]
      else if_test (184, ''Test-Path $PyDistDir'') skip Fail_run)"

text \<open>The last removal of the JRE step has \<open>-ErrorAction SilentlyContinue\<close>.\<close>

definition stage_jre_run :: "build_params \<Rightarrow> world \<Rightarrow> run" where
  "stage_jre_run p =
     in_turn
       [download_unless_skipped_run p ''$JREZip'',
        remove_if_there 193 ''$JREDir'',
        remove_if_there 197 ''$JRETmp'',
        raising (199, ''Expand-Archive -Path $JREZip''),
        if_test (201, ''Get-ChildItem -Path $JRETmp -Directory'') skip Fail_run,
        raising (205, ''Move-Item -Destination $JREDir''),
        swallowed (206, ''Remove-Item $JRETmp'')]"

definition stage_owasp_dc_run :: "build_params \<Rightarrow> world \<Rightarrow> run" where
  "stage_owasp_dc_run p =
     in_turn
       [download_unless_skipped_run p ''$OWASPDCZip'',
        remove_if_there 213 ''$OWASPDCDir'',
        raising (215, ''Expand-Archive -Path $OWASPDCZip''),
        if_test (217, ''Test-Path $OWASPDCDir'') skip Fail_run]"

text \<open>The function \<open>Heat\<close>: \<open>heat.exe\<close>, then the harvested file is read, its ids are
  prefixed, and it is saved.\<close>

definition Heat_run :: "string \<Rightarrow> string \<Rightarrow> world \<Rightarrow> run" where
  "Heat_run cg out_file =
     in_turn
       [program_checked (228, ''heat.exe -cg '' @ cg),
        raising (237, ''Get-Content '' @ out_file),
        raising (258, ''$xml.Save '' @ out_file)]"

definition harvest_run :: "world \<Rightarrow> run" where
  "harvest_run =
     in_turn
       [Heat_run ''AppFileComponents'' ''AppFiles.wxs'',
        Heat_run ''JREComponents'' ''JREFiles.wxs'',
        Heat_run ''OWASPDCComponents'' ''OWASPDCFiles.wxs'']"

definition compile_and_link_run :: "world \<Rightarrow> run" where
  "compile_and_link_run =
     in_turn
       [program_checked (276, ''candle.exe''),
        raising (290, ''Get-ChildItem -Filter *.wixobj''),
        program_checked (293, ''light.exe -out $MsiOut''),
        raising (302, ''Get-Item $MsiOut'')]"

definition build_msi_run :: "build_params \<Rightarrow> world \<Rightarrow> run" where
  "build_msi_run p =
     in_turn
       [raising (72, ''New-Item -Path $CacheDir''),
        locate_wix_run p,
        check_tools_run,
        build_venv_run,
        frontend_build_run p,
        pyinstaller_bundle_run p,
        stage_jre_run p,
        stage_owasp_dc_run p,
        harvest_run,
        compile_and_link_run]"

text \<open>
  The other \<open>build-msi.ps1\<close> (with \<open>-BundleOWASPDC\<close> and no \<open>-SkipDownloads\<close>); its
  switches are the three booleans.  \<open>python -m pip show\<close> is its test of whether a
  package is installed:
  \<^verbatim>\<open>
  function Require-PythonPackage {
      param([string]$pkg)
      $installed = & python -m pip show $pkg 2>&1
      if ($LASTEXITCODE -ne 0) {
          & python -m pip install $pkg | Out-Null
          if ($LASTEXITCODE -ne 0) { Fail "Failed to install $pkg" }
      }
  }
  \<close>
\<close>

definition Require_Command_run :: "string \<Rightarrow> world \<Rightarrow> run" where
  "Require_Command_run cmd = if_test (60, ''Get-Command '' @ cmd) skip Fail_run"

definition Require_PythonPackage_run :: "string \<Rightarrow> world \<Rightarrow> run" where
  "Require_PythonPackage_run pkg =
     if_test (70, ''python -m pip show '' @ pkg) skip
       (program_checked (73, ''python -m pip install '' @ pkg))"

definition bundle_prerequisites_run :: "world \<Rightarrow> run" where
  "bundle_prerequisites_run =
     in_turn
       [Require_Command_run ''python'',
        Require_Command_run ''node'',
        Require_Command_run ''npm'',
        in_turn (map (\<lambda>tool. if_test (106, ''Get-Command '' @ tool @ ''.exe'') skip Fail_run)
                 [''heat'', ''candle'', ''light'']),
        Require_PythonPackage_run ''pyinstaller'',
        program_checked (118, ''python -m pip install -r requirements.txt'')]"

definition bundle_frontend_run :: "bool \<Rightarrow> world \<Rightarrow> run" where
  "bundle_frontend_run skipFrontendBuild =
     (if \<not> skipFrontendBuild
      then in_turn [program_checked (129, ''npm install''), program_checked (131, ''npm run build'')]
      else if_test (137, ''Test-Path frontend/dist'') skip Fail_run)"

definition bundle_pyinstaller_run :: "bool \<Rightarrow> world \<Rightarrow> run" where
  "bundle_pyinstaller_run skipPyInstaller =
     (if \<not> skipPyInstaller
      then in_turn
             [remove_if_there 149 ''build'',
              remove_if_there 150 ''dist'',
              program_checked (152, ''python -m PyInstaller owasp-scanner.spec'')]
      else if_test (158, ''Test-Path $DistDir'') skip Fail_run)"

definition bundle_stage_owasp_dc_run :: "bool \<Rightarrow> world \<Rightarrow> run" where
  "bundle_stage_owasp_dc_run bundleOWASPDC =
     (if bundleOWASPDC
      then in_turn
             [if_test (169, ''Test-Path $OWASPDCZipPath'') skip
                (raising (171, ''Invoke-WebRequest -OutFile $OWASPDCZipPath'')),
              remove_if_there 177 ''$OWASPDCDir'',
              raising (178, ''Expand-Archive -Path $OWASPDCZipPath'')]
      else remove_if_there 185 ''$OWASPDCDir'')"

definition bundle_harvest_run :: "bool \<Rightarrow> world \<Rightarrow> run" where
  "bundle_harvest_run bundleOWASPDC =
     in_turn
       [program_checked (194, ''heat.exe -cg AppFileComponents''),
        if bundleOWASPDC
        then if_test (210, ''Test-Path $OWASPDCDir'')
               (program_checked (211, ''heat.exe -cg OWASPDCComponents''))
               (raising (233, ''Set-Content $OWASPDCFilesWxs''))
        else raising (233, ''Set-Content $OWASPDCFilesWxs'')]"

definition build_msi_bundling_run :: "bool \<Rightarrow> bool \<Rightarrow> bool \<Rightarrow> world \<Rightarrow> run" where
  "build_msi_bundling_run bundleOWASPDC skipFrontendBuild skipPyInstaller =
     in_turn
       [bundle_prerequisites_run,
        bundle_frontend_run skipFrontendBuild,
        bundle_pyinstaller_run skipPyInstaller,
        bundle_stage_owasp_dc_run bundleOWASPDC,
        bundle_harvest_run bundleOWASPDC,
        program_checked (258, ''candle.exe''),
        raising (267, ''Get-ChildItem -Filter *.wixobj''),
        program_checked (277, ''light.exe -out $MsiOutput'')]"

text \<open>
  \<open>owasp-scanner.spec\<close>, the PyInstaller build script: the data and binaries of three
  packages and the data files of five are collected, then \<open>Analysis\<close>, \<open>PYZ\<close>, \<open>EXE\<close>
  and \<open>COLLECT\<close> are built; \<open>os.path.isdir\<close> decides only between adding the frontend
  and printing a warning.
\<close>

definition pyinstaller_spec_run :: "world \<Rightarrow> run" where
  "pyinstaller_spec_run =
     in_turn
       (map raising
          [(118, ''collect_all anthropic''), (119, ''collect_all httpx''),
           (120, ''collect_all lxml''),
           (126, ''collect_data_files pydantic''), (127, ''collect_data_files pydantic_settings''),
           (128, ''collect_data_files sqlmodel''), (129, ''collect_data_files starlette''),
           (130, ''collect_data_files fastapi''),
           (240, ''Analysis''), (267, ''PYZ''), (269, ''EXE''), (288, ''COLLECT'')])"

section \<open>The handlers of the pages as runs\<close>

text \<open>
  Every wrapper of \<open>services/api.js\<close> sends one request (\<open>api.get\<close>, \<open>api.post\<close>,
  \<open>api.patch\<close>, \<open>api.delete\<close>); the response interceptor sends none.  A handler is
  the requests it sends, in order.
\<close>

definition api_request_run :: "site \<Rightarrow> world \<Rightarrow> run" where
  "api_request_run s = raising s"

text \<open>LoginPage, \<open>handleSubmit\<close>: one request in \<open>try ... catch\<close>.\<close>

definition LoginPage_handleSubmit_run :: "string \<Rightarrow> world \<Rightarrow> run" where
  "LoginPage_handleSubmit_run mode =
     (if mode = ''register''
      then caught_return (20, ''POST /auth/register'')
      else caught_return (25, ''POST /auth/login''))"

text \<open>DashboardPage: \<open>fetchScans\<close> has \<open>try ... finally\<close> and no \<open>catch\<close>; the effect
  and the timer call it without \<open>await\<close>; \<open>handleDelete\<close> asks first.\<close>

definition DashboardPage_fetchScans_run :: "world \<Rightarrow> run" where
  "DashboardPage_fetchScans_run = raising (30, ''GET /scans/'')"

definition DashboardPage_effect_run :: "world \<Rightarrow> run" where
  "DashboardPage_effect_run = unawaited DashboardPage_fetchScans_run"

definition DashboardPage_tick_run :: "scan list \<Rightarrow> world \<Rightarrow> run" where
  "DashboardPage_tick_run captured =
     (if hasActive captured then unawaited DashboardPage_fetchScans_run else skip)"

definition DashboardPage_handleDelete_run :: "world \<Rightarrow> run" where
  "DashboardPage_handleDelete_run =
     if_test (49, ''confirm Delete this scan?'')
       (raising (50, ''DELETE /scans/${id}''))
       (finish Returned)"

text \<open>ResultsPage, \<open>fetchScan\<close> (also the timer's callback and the refresh button's): its
  \<open>catch\<close> only sets the error text.  ScanLog, \<open>fetchLog\<close>: its \<open>catch\<close> is empty.\<close>

definition ResultsPage_fetchScan_run :: "world \<Rightarrow> run" where
  "ResultsPage_fetchScan_run = swallowed (23, ''GET /scans/${scanId}'')"

definition ScanLog_fetchLog_run :: "world \<Rightarrow> run" where
  "ScanLog_fetchLog_run = swallowed (228, ''GET /scans/${scanId}/log'')"

text \<open>FileUpload, \<open>handleUpload\<close>: \<^verbatim>\<open>if (!file) return\<close>, then the upload in
  \<open>try ... catch\<close>.\<close>

definition FileUpload_handleUpload_run :: "upload_state \<Rightarrow> world \<Rightarrow> run" where
  "FileUpload_handleUpload_run st =
     (if upload_request st = None then finish Returned
      else caught_return (37, ''POST /scans/upload''))"

text \<open>
  ScanResults.  \<open>handleAnalyze\<close> returns when there are no ids, else sends the request
  in \<open>try ... catch\<close> and then calls \<open>onRefresh\<close> (ResultsPage's \<open>fetchScan\<close>) without
  \<open>await\<close>; \<open>handleSuppress\<close> and \<open>handleDownload\<close> await their request outside \<open>try\<close>.
\<close>

definition ScanResults_handleAnalyze_run :: "nat list \<Rightarrow> world \<Rightarrow> run" where
  "ScanResults_handleAnalyze_run ids =
     (if ids = [] then finish Returned
      else in_turn [caught_return (45, ''POST /scans/${scanId}/analyze''),
                  unawaited ResultsPage_fetchScan_run])"

definition ScanResults_handleSuppress_run :: "world \<Rightarrow> run" where
  "ScanResults_handleSuppress_run =
     in_turn [raising (56, ''PATCH /scans/${scanId}/vulnerabilities/${vulnId}/suppress''),
            unawaited ResultsPage_fetchScan_run]"

definition ScanResults_handleDownload_run :: "world \<Rightarrow> run" where
  "ScanResults_handleDownload_run = raising (61, ''GET /scans/${scanId}/report'')"

text \<open>IntegrationsPage, \<open>fetchIntegrations\<close> (\<open>try ... finally\<close>), and CicdIntegration,
  whose \<open>onRefresh\<close> it is.\<close>

definition IntegrationsPage_fetchIntegrations_run :: "world \<Rightarrow> run" where
  "IntegrationsPage_fetchIntegrations_run = raising (12, ''GET /integrations/'')"

definition CicdIntegration_handleSave_run :: "world \<Rightarrow> run" where
  "CicdIntegration_handleSave_run =
     in_turn [caught_return (42, ''POST /integrations/''),
            unawaited IntegrationsPage_fetchIntegrations_run]"

definition CicdIntegration_handleDelete_run :: "world \<Rightarrow> run" where
  "CicdIntegration_handleDelete_run =
     if_test (54, ''confirm Delete this integration?'')
       (in_turn [raising (55, ''DELETE /integrations/${id}''),
               unawaited IntegrationsPage_fetchIntegrations_run])
       (finish Returned)"

definition CicdIntegration_handleTrigger_run :: "world \<Rightarrow> run" where
  "CicdIntegration_handleTrigger_run = caught_return (63, ''POST /integrations/${id}/trigger'')"

text \<open>The handlers that send no request and run no program: Navbar's \<open>handleLogout\<close>,
  the response interceptor of \<open>api.js\<close>, \<open>validateAndSet\<close>, \<open>handleSelect\<close>,
  \<open>handleSelectAll\<close>, \<open>downloadLog\<close>, \<open>handleScroll\<close>.\<close>

definition local_handler_run :: "world \<Rightarrow> run" where
  "local_handler_run = skip"

section \<open>The backend as runs\<close>

text \<open>
  Modelled from the spec: the backend is not among the sources.  The spec describes
  its components as "thin REST handlers delegating to an ORM", "a subprocess
  invocation wrapped in a timeout/retry-free shell-out" whose failure is persisted
  as the \<open>error_message\<close> of the scan row, and "a single outbound HTTPS call to a
  third-party API with response parsing".
\<close>

definition backend_rest_handler_run :: "world \<Rightarrow> run" where
  "backend_rest_handler_run = raising (0, ''ORM query'')"

definition backend_scan_run :: "world \<Rightarrow> run" where
  "backend_scan_run =
     in_turn [swallowed (0, ''dependency-check subprocess''), raising (0, ''ORM write of the scan row'')]"

definition backend_analysis_run :: "world \<Rightarrow> run" where
  "backend_analysis_run = raising (0, ''HTTPS request to the LLM API'')"

section \<open>The code paths of the system\<close>

text \<open>Every script, every handler and callback of the pages, and the three kinds of
  backend component, each with what its run depends on besides the world.\<close>

datatype code_path =
  Setup_windows_bat
| Start_windows_bat
| Setup_windows_ps1
| Build_msi build_params
| Build_msi_bundling bool bool bool
| PyInstaller_spec
| Api_wrapper site
| LoginPage_handleSubmit string
| DashboardPage_fetchScans
| DashboardPage_effect
| DashboardPage_tick "scan list"
| DashboardPage_handleDelete
| ResultsPage_fetchScan
| ScanLog_fetchLog
| FileUpload_handleUpload upload_state
| ScanResults_handleAnalyze "nat list"
| ScanResults_handleSuppress
| ScanResults_handleDownload
| IntegrationsPage_fetchIntegrations
| CicdIntegration_handleSave
| CicdIntegration_handleDelete
| CicdIntegration_handleTrigger
| Local_handler
| Backend_rest_handler
| Backend_scan
| Backend_analysis

fun run_of :: "code_path \<Rightarrow> world \<Rightarrow> run" where
  "run_of Setup_windows_bat = setup_windows_bat_run"
| "run_of Start_windows_bat = start_windows_bat_run"
| "run_of Setup_windows_ps1 = setup_windows_ps1_run"
| "run_of (Build_msi p) = build_msi_run p"
| "run_of (Build_msi_bundling b f y) = build_msi_bundling_run b f y"
| "run_of PyInstaller_spec = pyinstaller_spec_run"
| "run_of (Api_wrapper s) = api_request_run s"
| "run_of (LoginPage_handleSubmit mode) = LoginPage_handleSubmit_run mode"
| "run_of DashboardPage_fetchScans = DashboardPage_fetchScans_run"
| "run_of DashboardPage_effect = DashboardPage_effect_run"
| "run_of (DashboardPage_tick captured) = DashboardPage_tick_run captured"
| "run_of DashboardPage_handleDelete = DashboardPage_handleDelete_run"
| "run_of ResultsPage_fetchScan = ResultsPage_fetchScan_run"
| "run_of ScanLog_fetchLog = ScanLog_fetchLog_run"
| "run_of (FileUpload_handleUpload st) = FileUpload_handleUpload_run st"
| "run_of (ScanResults_handleAnalyze ids) = ScanResults_handleAnalyze_run ids"
| "run_of ScanResults_handleSuppress = ScanResults_handleSuppress_run"
| "run_of ScanResults_handleDownload = ScanResults_handleDownload_run"
| "run_of IntegrationsPage_fetchIntegrations = IntegrationsPage_fetchIntegrations_run"
| "run_of CicdIntegration_handleSave = CicdIntegration_handleSave_run"
| "run_of CicdIntegration_handleDelete = CicdIntegration_handleDelete_run"
| "run_of CicdIntegration_handleTrigger = CicdIntegration_handleTrigger_run"
| "run_of Local_handler = local_handler_run"
| "run_of Backend_rest_handler = backend_rest_handler_run"
| "run_of Backend_scan = backend_scan_run"
| "run_of Backend_analysis = backend_analysis_run"

section \<open>What a failed call does to the polling timers\<close>

text \<open>
  ResultsPage, the state \<open>fetchScan\<close> writes, and \<open>fetchScan\<close> once its request has
  settled (\<open>Inl\<close>: rejected):
  \<^verbatim>\<open>
  try {
    const { data } = await scansAPI.get(scanId)
    setScan(data)
    setError('')
  } catch (err) {
    setError('Scan not found or access denied')
  } finally {
    setLoading(false)
  }
  \<close>
\<close>

record results_page =
  page_scan :: "scan option"
  page_loading :: bool
  page_error :: string

definition fetchScan_settles :: "axios_error + scan \<Rightarrow> results_page \<Rightarrow> results_page" where
  "fetchScan_settles r st =
     (case r of
        Inr data \<Rightarrow> st\<lparr>page_scan := Some data, page_error := '''', page_loading := False\<rparr>
      | Inl err \<Rightarrow> st\<lparr>page_error := ''Scan not found or access denied'', page_loading := False\<rparr>)"

text \<open>
  DashboardPage, \<open>fetchScans\<close> once its request has settled: a rejection only clears
  \<open>loading\<close>, which is no part of the state the timer depends on.
  \<^verbatim>\<open>
  try {
    const { data } = await scansAPI.list()
    setScans(data)
  } finally {
    setLoading(false)
  }
  \<close>
\<close>

definition fetchScans_settles :: "axios_error + scan list \<Rightarrow> dashboard \<Rightarrow> dashboard \<times> nat" where
  "fetchScans_settles r d =
     (case r of Inr data \<Rightarrow> dashboard_step (Fetched data) d | Inl err \<Rightarrow> (d, 0))"

text \<open>
  ScanLog, \<open>fetchLog\<close> once its request has settled:
  \<^verbatim>\<open>
  try {
    const { data } = await scansAPI.getLog(scanId)
    setLog(data || '')
  } catch {
    // silently ignore -- log may not exist yet
  }
  \<close>
\<close>

definition fetchLog_settles :: "axios_error + string option \<Rightarrow> string \<Rightarrow> string" where
  "fetchLog_settles r log_text =
     (case r of Inr data \<Rightarrow> or_default data '''' | Inl err \<Rightarrow> log_text)"

section \<open>The filter of the vulnerability list: results\<close>

lemma keep_vuln_ALL:
  "keep_vuln ss fs ''ALL'' v = passes_other_filters ss fs v"
  by (auto simp: keep_vuln_def passes_other_filters_def)

lemma keep_vuln_unanalyzed_FP:
  "ai_is_false_positive v = None \<Longrightarrow> \<not> keep_vuln ss fs ''FP'' v"
  by (simp add: keep_vuln_def truthy_flag_def)

lemma keep_vuln_unanalyzed_REAL:
  "ai_is_false_positive v = None \<Longrightarrow> \<not> keep_vuln ss fs ''REAL'' v"
  by (simp add: keep_vuln_def)

text \<open>
  C9.  The false-positive filter does not partition the visible vulnerabilities: a
  vulnerability of the list that was never analysed (its \<open>ai_is_false_positive\<close> is
  null or undefined) and that passes the suppression and severity tests is in the list
  shown under \<open>ALL\<close>, and in neither the list shown under \<open>FP\<close> (False Positives Only)
  nor the list shown under \<open>REAL\<close> (Confirmed Risks Only).
\<close>

theorem fp_filter_not_a_partition:
  assumes "v \<in> set vulns"
    and "ai_is_false_positive v = None"
    and "passes_other_filters ss fs v"
  shows "v \<in> set (filtered ss fs ''ALL'' vulns)
       \<and> v \<notin> set (filtered ss fs ''FP'' vulns)
       \<and> v \<notin> set (filtered ss fs ''REAL'' vulns)"
  using assms
  by (simp add: filtered_def keep_vuln_ALL keep_vuln_unanalyzed_FP keep_vuln_unanalyzed_REAL)

theorem fp_filter_not_a_partition_witness:
  "filtered False ''ALL'' ''ALL''
      [\<lparr>vuln_id = 1, severity = ''HIGH'', is_suppressed = False, ai_is_false_positive = None\<rparr>]
     = [\<lparr>vuln_id = 1, severity = ''HIGH'', is_suppressed = False, ai_is_false_positive = None\<rparr>]
   \<and> filtered False ''ALL'' ''FP''
      [\<lparr>vuln_id = 1, severity = ''HIGH'', is_suppressed = False, ai_is_false_positive = None\<rparr>]
     = []
   \<and> filtered False ''ALL'' ''REAL''
      [\<lparr>vuln_id = 1, severity = ''HIGH'', is_suppressed = False, ai_is_false_positive = None\<rparr>]
     = []"
proof -
  let ?v = "\<lparr>vuln_id = 1, severity = ''HIGH'', is_suppressed = False,
              ai_is_false_positive = None\<rparr>"
  have a: "?v \<in> set [?v]" by simp
  have b: "ai_is_false_positive ?v = None" by simp
  have c: "passes_other_filters False ''ALL'' ?v" by (simp add: passes_other_filters_def)
  from fp_filter_not_a_partition [OF a b c]
  have "?v \<in> set (filtered False ''ALL'' ''ALL'' [?v])"
    and "?v \<notin> set (filtered False ''ALL'' ''FP'' [?v])"
    and "?v \<notin> set (filtered False ''ALL'' ''REAL'' [?v])"
    by simp_all
  then show ?thesis
    by (auto simp: filtered_def split: if_splits)
qed

section \<open>The response interceptor: results\<close>

lemma on_rejected_rejects: "snd (on_rejected err b) = Inl err"
  by (simp add: on_rejected_def)

lemma on_rejected_other_status:
  "err_status err \<noteq> Some 401 \<Longrightarrow> fst (on_rejected err b) = b"
  by (simp add: on_rejected_def)

text \<open>
  C10.  Every API response with HTTP status 401, whatever the endpoint (\<open>resp_url\<close> is
  arbitrary), makes the client remove the stored user from \<open>localStorage\<close> and set the
  browser's location to \<open>/login\<close>; the call itself is rejected with the error, the other
  keys of \<open>localStorage\<close> stay, and from then on the protected route renders the
  redirect to \<open>/login\<close>, not the authenticated page.
\<close>

theorem unauthorized_logs_out:
  assumes "resp_status res = 401"
  shows "localStorage (fst (receive_response res b)) ''user'' = None
       \<and> location_href (fst (receive_response res b)) = ''/login''
       \<and> snd (receive_response res b) = Inl \<lparr>err_url = resp_url res, err_response = Some res\<rparr>
       \<and> ProtectedRoute (fst (receive_response res b)) = Navigate ''/login''
       \<and> (\<forall>k. k \<noteq> ''user'' \<longrightarrow> localStorage (fst (receive_response res b)) k = localStorage b k)"
  using assms
  by (simp add: receive_response_def on_rejected_def err_status_def ProtectedRoute_def
      truthy_string_def)

theorem unauthorized_logs_out_witness:
  "localStorage (fst (receive_response \<lparr>resp_url = ''/scans/7'', resp_status = 401\<rparr>
       \<lparr>localStorage = [''user'' \<mapsto> ''{}'', ''token'' \<mapsto> ''t''], location_href = ''/results/7''\<rparr>))
     ''user'' = None
   \<and> location_href (fst (receive_response \<lparr>resp_url = ''/scans/7'', resp_status = 401\<rparr>
       \<lparr>localStorage = [''user'' \<mapsto> ''{}'', ''token'' \<mapsto> ''t''], location_href = ''/results/7''\<rparr>))
     = ''/login''
   \<and> ProtectedRoute \<lparr>localStorage = [''user'' \<mapsto> ''{}'', ''token'' \<mapsto> ''t''],
        location_href = ''/results/7''\<rparr> = Children
   \<and> ProtectedRoute (fst (receive_response \<lparr>resp_url = ''/scans/7'', resp_status = 401\<rparr>
       \<lparr>localStorage = [''user'' \<mapsto> ''{}'', ''token'' \<mapsto> ''t''], location_href = ''/results/7''\<rparr>))
     = Navigate ''/login''"
proof -
  let ?res = "\<lparr>resp_url = ''/scans/7'', resp_status = 401\<rparr>"
  let ?b = "\<lparr>localStorage = [''user'' \<mapsto> ''{}'', ''token'' \<mapsto> ''t''],
             location_href = ''/results/7''\<rparr>"
  have h: "resp_status ?res = 401" by simp
  have before: "ProtectedRoute ?b = Children"
    by (simp add: ProtectedRoute_def truthy_string_def)
  from unauthorized_logs_out [OF h, of ?b] before show ?thesis by simp
qed

section \<open>Polling: results\<close>

lemma results_page_polls_while_active:
  "isActive (status s) \<Longrightarrow> results_poll_interval (Some s) = Some 4000"
  by (auto simp: isActive_def results_poll_interval_def)

lemma results_page_stops_polling:
  "status s = ''completed'' \<or> status s = ''failed'' \<Longrightarrow> results_poll_interval (Some s) = None"
  by (auto simp: results_poll_interval_def)

lemma scanlog_polls_iff_active:
  "scanlog_poll_interval st = (if st = ''pending'' \<or> st = ''running'' then Some 2000 else None)"
  by (simp add: scanlog_poll_interval_def isActive_def)

lemma results_log_polls_iff_running:
  "results_log_poll_interval s = (if status s = ''running'' then Some 2000 else None)"
  by (auto simp: results_log_poll_interval_def scanlog_poll_interval_def isActive_def)

lemma dashboard_effect_kept:
  "length data = length (scans d) \<Longrightarrow>
     effect_scans (fst (dashboard_step (Fetched data) d)) = effect_scans d"
  by simp

lemma dashboard_tick_after_same_length:
  "hasActive (effect_scans d) \<Longrightarrow> length data = length (scans d) \<Longrightarrow>
     snd (dashboard_step Tick (fst (dashboard_step (Fetched data) d))) = 1"
  by simp

text \<open>
  C5, the dashboard.  The page is mounted, the first \<open>fetchScans\<close> returns one running
  scan, the next returns the same scan completed, and the list keeps its length.  The
  running effect still holds the list with the running scan, so every later tick of the
  5000 ms timer calls \<open>fetchScans\<close> again, although no scan of the current list is
  pending or running.
\<close>

theorem dashboard_polls_after_completion:
  "dashboard_run
     [Fetched [\<lparr>scan_id = 1, status = ''running'', error_message = None, vulnerabilities = []\<rparr>],
      Fetched [\<lparr>scan_id = 1, status = ''completed'', error_message = None, vulnerabilities = []\<rparr>],
      Tick,
      Fetched [\<lparr>scan_id = 1, status = ''completed'', error_message = None, vulnerabilities = []\<rparr>],
      Tick]
     (fst dashboard_mount)
   = (\<lparr>scans = [\<lparr>scan_id = 1, status = ''completed'', error_message = None, vulnerabilities = []\<rparr>],
       effect_scans = [\<lparr>scan_id = 1, status = ''running'', error_message = None, vulnerabilities = []\<rparr>]\<rparr>,
      [1, 0, 1, 0, 1])
   \<and> hasActive [\<lparr>scan_id = 1, status = ''completed'', error_message = None, vulnerabilities = []\<rparr>]
       = False"
  by (simp add: dashboard_mount_def hasActive_def)

section \<open>FileUpload: results\<close>

lemma lower_char_adds_32:
  "(65 \<le> (of_char c :: nat) \<and> (of_char c :: nat) \<le> 90) \<or>
   (192 \<le> (of_char c :: nat) \<and> (of_char c :: nat) \<le> 222 \<and> (of_char c :: nat) \<noteq> 215)
   \<Longrightarrow> (of_char (lower_char c) :: nat) = of_char c + 32"
  by (cases c) (auto simp: lower_char_def of_bool_def split: if_splits)

lemma toLowerCase_examples:
  "toLowerCase ''App.JAR'' = ''app.jar''"
  "toLowerCase [CHR 0xC9, CHR 0xD7, CHR 0xDF, CHR 0xFF] = [CHR 0xE9, CHR 0xD7, CHR 0xDF, CHR 0xFF]"
  by (simp_all add: toLowerCase_def lower_char_def)

lemma split_on_nonempty: "split_on c s \<noteq> []"
  by (induction s) (auto split: list.splits)

lemma file_ext_defined: "file_ext f \<noteq> None"
  by (simp add: file_ext_def pop_def split_on_nonempty)

lemma validateAndSet_refuses:
  assumes "file_ext f = Some ext" and "ext \<notin> set SUPPORTED"
  shows "validateAndSet f st =
           Some (st\<lparr>error := ''Unsupported file type. Supported: '' @ join '', '' SUPPORTED\<rparr>)"
    and "map_option chosen_file (validateAndSet f st) = Some (chosen_file st)"
  using assms by (simp_all add: validateAndSet_def)

lemma validateAndSet_refuses_example:
  "validateAndSet \<lparr>file_name = ''notes.txt''\<rparr> \<lparr>chosen_file = None, error = ''''\<rparr>
     = Some \<lparr>chosen_file = None,
             error = ''Unsupported file type. Supported: .jar, .war, .ear, .zip, .sar, .apk, .nupkg, .egg, .wheel, .tar, .gz, .tgz''\<rparr>"
  by (simp add: validateAndSet_def file_ext_def pop_def toLowerCase_def lower_char_def
      SUPPORTED_def)

text \<open>
  C3, the client.  A file whose name is \<open>jar\<close> has no dot, hence no extension; the
  last piece of the split is the whole name, so \<open>ext\<close> is \<open>.jar\<close> and
  \<open>validateAndSet\<close> takes the file, clears the error, and \<open>handleUpload\<close> will post it.
\<close>

theorem validateAndSet_takes_dotless_name:
  "CHR ''.'' \<notin> set (file_name \<lparr>file_name = ''jar''\<rparr>)
   \<and> file_ext \<lparr>file_name = ''jar''\<rparr> = Some ''.jar''
   \<and> validateAndSet \<lparr>file_name = ''jar''\<rparr> \<lparr>chosen_file = None, error = ''''\<rparr>
       = Some \<lparr>chosen_file = Some \<lparr>file_name = ''jar''\<rparr>, error = ''''\<rparr>
   \<and> upload_request \<lparr>chosen_file = Some \<lparr>file_name = ''jar''\<rparr>, error = ''''\<rparr>
       = Some \<lparr>file_name = ''jar''\<rparr>"
  by (simp add: validateAndSet_def file_ext_def pop_def toLowerCase_def lower_char_def
      SUPPORTED_def upload_request_def)

section \<open>The scan row: results\<close>

lemma apply_op_move:
  "row_status (apply_op op r) = row_status r
   \<or> forward_move (row_status r) (row_status (apply_op op r))"
  by (cases op; cases "row_status r") simp_all

lemma apply_op_rank: "status_rank (row_status r) \<le> status_rank (row_status (apply_op op r))"
  by (cases op; cases "row_status r") simp_all

lemma apply_op_terminal: "terminal (row_status r) \<Longrightarrow> apply_op op r = r"
  by (cases op) (auto simp: terminal_def)

lemma apply_ops_rank: "status_rank (row_status r) \<le> status_rank (row_status (apply_ops ops r))"
proof (induction ops arbitrary: r)
  case Nil
  show ?case by simp
next
  case (Cons op ops)
  have "status_rank (row_status r) \<le> status_rank (row_status (apply_op op r))"
    by (rule apply_op_rank)
  also have "\<dots> \<le> status_rank (row_status (apply_ops ops (apply_op op r)))"
    by (rule Cons.IH)
  finally show ?case by simp
qed

lemma apply_ops_terminal: "terminal (row_status r) \<Longrightarrow> apply_ops ops r = r"
  by (induction ops arbitrary: r) (simp_all add: apply_op_terminal)

text \<open>
  C1.  Whatever operations are applied to a scan row, in whatever order, its status only
  moves forward along pending \<rightarrow> running \<rightarrow> {completed, failed}: a single operation
  keeps the status or makes one of the three moves, a sequence never lowers the rank of
  the status, and a row that is completed or failed is left unchanged by every sequence.
\<close>

theorem scan_status_only_forward:
  "(row_status (apply_op op r) = row_status r
      \<or> forward_move (row_status r) (row_status (apply_op op r)))
   \<and> status_rank (row_status r) \<le> status_rank (row_status (apply_ops ops r))
   \<and> (terminal (row_status r) \<longrightarrow> apply_ops ops r = r)"
  using apply_op_move apply_ops_rank apply_ops_terminal by blast

theorem scan_status_only_forward_witness:
  "terminal (row_status \<lparr>row_status = Failed, row_error_message = Some ''timeout''\<rparr>)
   \<and> apply_ops [Start, Complete, Fail ''again'']
        \<lparr>row_status = Failed, row_error_message = Some ''timeout''\<rparr>
       = \<lparr>row_status = Failed, row_error_message = Some ''timeout''\<rparr>
   \<and> row_status (apply_ops [Start, Complete, Start] new_row) = Completed"
proof -
  let ?r = "\<lparr>row_status = Failed, row_error_message = Some ''timeout''\<rparr>"
  have t: "terminal (row_status ?r)" by (simp add: terminal_def)
  from scan_status_only_forward [of Start ?r "[Start, Complete, Fail ''again'']"] t
  have "apply_ops [Start, Complete, Fail ''again''] ?r = ?r" by blast
  moreover have "row_status (apply_ops [Start, Complete, Start] new_row) = Completed"
    by (simp add: new_row_def)
  ultimately show ?thesis using t by simp
qed

section \<open>Suppressing a vulnerability: results\<close>

lemma toggle_suppressed_twice: "toggle_suppressed (toggle_suppressed v) = v"
  by (simp add: toggle_suppressed_def)

lemma suppress_endpoint_twice: "suppress_endpoint vid (suppress_endpoint vid s) = s"
proof -
  have "map ((\<lambda>v. if vuln_id v = vid then toggle_suppressed v else v) \<circ>
             (\<lambda>v. if vuln_id v = vid then toggle_suppressed v else v)) vs = vs" for vs
    by (rule map_idI) (simp add: toggle_suppressed_def)
  then show ?thesis by (simp add: suppress_endpoint_def)
qed

text \<open>
  C4.  Suppressing toggles the single boolean \<open>is_suppressed\<close>: one application flips
  the flag and keeps the vulnerability's other fields, two applications give the
  vulnerability back; on a scan, suppressing the same vulnerability twice (the request
  alone, or \<open>handleSuppress\<close> with its refresh) gives the scan back.
\<close>

theorem suppress_is_a_toggle:
  "is_suppressed (toggle_suppressed v) = (\<not> is_suppressed v)
   \<and> vuln_id (toggle_suppressed v) = vuln_id v
   \<and> severity (toggle_suppressed v) = severity v
   \<and> ai_is_false_positive (toggle_suppressed v) = ai_is_false_positive v
   \<and> toggle_suppressed (toggle_suppressed v) = v
   \<and> suppress_endpoint vid (suppress_endpoint vid s) = s
   \<and> handleSuppress vid (handleSuppress vid (s, s)) = (s, s)"
  by (simp add: toggle_suppressed_twice suppress_endpoint_twice handleSuppress_def Let_def)
    (simp add: toggle_suppressed_def)

theorem suppress_is_a_toggle_witness:
  "vulnerabilities (suppress_endpoint 2
      \<lparr>scan_id = 1, status = ''completed'', error_message = None,
       vulnerabilities =
         [\<lparr>vuln_id = 2, severity = ''HIGH'', is_suppressed = False, ai_is_false_positive = None\<rparr>,
          \<lparr>vuln_id = 3, severity = ''LOW'', is_suppressed = False, ai_is_false_positive = None\<rparr>]\<rparr>)
     = [\<lparr>vuln_id = 2, severity = ''HIGH'', is_suppressed = True, ai_is_false_positive = None\<rparr>,
        \<lparr>vuln_id = 3, severity = ''LOW'', is_suppressed = False, ai_is_false_positive = None\<rparr>]
   \<and> suppress_endpoint 2 (suppress_endpoint 2
      \<lparr>scan_id = 1, status = ''completed'', error_message = None,
       vulnerabilities =
         [\<lparr>vuln_id = 2, severity = ''HIGH'', is_suppressed = False, ai_is_false_positive = None\<rparr>,
          \<lparr>vuln_id = 3, severity = ''LOW'', is_suppressed = False, ai_is_false_positive = None\<rparr>]\<rparr>)
     = \<lparr>scan_id = 1, status = ''completed'', error_message = None,
       vulnerabilities =
         [\<lparr>vuln_id = 2, severity = ''HIGH'', is_suppressed = False, ai_is_false_positive = None\<rparr>,
          \<lparr>vuln_id = 3, severity = ''LOW'', is_suppressed = False, ai_is_false_positive = None\<rparr>]\<rparr>"
proof -
  let ?s = "\<lparr>scan_id = 1, status = ''completed'', error_message = None,
       vulnerabilities =
         [\<lparr>vuln_id = 2, severity = ''HIGH'', is_suppressed = False, ai_is_false_positive = None\<rparr>,
          \<lparr>vuln_id = 3, severity = ''LOW'', is_suppressed = False, ai_is_false_positive = None\<rparr>]\<rparr>"
  have once: "vulnerabilities (suppress_endpoint 2 ?s)
     = [\<lparr>vuln_id = 2, severity = ''HIGH'', is_suppressed = True, ai_is_false_positive = None\<rparr>,
        \<lparr>vuln_id = 3, severity = ''LOW'', is_suppressed = False, ai_is_false_positive = None\<rparr>]"
    by (simp add: suppress_endpoint_def toggle_suppressed_def)
  from suppress_is_a_toggle [of _ 2 ?s]
  have "suppress_endpoint 2 (suppress_endpoint 2 ?s) = ?s" by blast
  with once show ?thesis by simp
qed

section \<open>The webhook receiver: results\<close>

lemma required_string_present:
  "map_of body k = Some j \<Longrightarrow> is_string j \<Longrightarrow> required_string body k = Some (case j of JStr s \<Rightarrow> s)"
  by (cases j) (simp_all add: required_string_def is_string_def)

lemma optional_string_ok:
  "(case map_of body k of None \<Rightarrow> True | Some j \<Rightarrow> is_string j) \<Longrightarrow>
     \<exists>v. optional_string body k = Some v \<and> (v = None \<longleftrightarrow> map_of body k = None)"
  by (auto simp: optional_string_def is_string_def split: option.splits json.splits)

lemma optional_object_ok:
  "(case map_of body k of None \<Rightarrow> True | Some j \<Rightarrow> is_object j) \<Longrightarrow>
     \<exists>v. optional_object body k = Some v \<and> (v = None \<longleftrightarrow> map_of body k = None)"
  by (auto simp: optional_object_def is_object_def split: option.splits json.splits)

text \<open>
  C6.  A body \<open>{source, project_name, artifact_url, metadata}\<close> in which \<open>source\<close> and
  \<open>project_name\<close> are present and \<open>artifact_url\<close> and \<open>metadata\<close> are present or
  not is accepted by the receiver, which reads the two required members as they are
  and each optional member as absent exactly when the body does not have it.
\<close>

theorem webhook_accepts_schema:
  assumes "matches_schema body"
  shows "\<exists>p. webhook_receive body = Inr p
           \<and> map_of body ''source'' = Some (JStr (source p))
           \<and> map_of body ''project_name'' = Some (JStr (project_name p))
           \<and> (artifact_url p = None \<longleftrightarrow> map_of body ''artifact_url'' = None)
           \<and> (metadata p = None \<longleftrightarrow> map_of body ''metadata'' = None)"
proof -
  from assms obtain s where s: "map_of body ''source'' = Some (JStr s)"
    by (auto simp: matches_schema_def is_string_def split: option.splits json.splits)
  from assms obtain n where n: "map_of body ''project_name'' = Some (JStr n)"
    by (auto simp: matches_schema_def is_string_def split: option.splits json.splits)
  from assms obtain u where u: "optional_string body ''artifact_url'' = Some u"
    "u = None \<longleftrightarrow> map_of body ''artifact_url'' = None"
    using optional_string_ok [of body "''artifact_url''"] by (auto simp: matches_schema_def)
  from assms obtain m where m: "optional_object body ''metadata'' = Some m"
    "m = None \<longleftrightarrow> map_of body ''metadata'' = None"
    using optional_object_ok [of body "''metadata''"] by (auto simp: matches_schema_def)
  have "webhook_receive body =
          Inr \<lparr>source = s, project_name = n, artifact_url = u, metadata = m\<rparr>"
    using s n u(1) m(1) by (simp add: webhook_receive_def required_string_def)
  with s n u(2) m(2) show ?thesis by simp
qed

theorem webhook_accepts_schema_witness:
  "matches_schema guide_payload \<and> matches_schema readme_payload
   \<and> (\<exists>p. webhook_receive guide_payload = Inr p)
   \<and> (\<exists>p. webhook_receive readme_payload = Inr p)"
proof -
  have g: "matches_schema guide_payload"
    by (simp add: matches_schema_def guide_payload_def is_string_def is_object_def)
  have r: "matches_schema readme_payload"
    by (simp add: matches_schema_def readme_payload_def is_string_def is_object_def)
  from webhook_accepts_schema [OF g] webhook_accepts_schema [OF r] g r
  show ?thesis by blast
qed

lemma webhook_refuses_missing_source:
  "webhook_receive [(''project_name'', JStr ''my-app'')] = Inl 422"
  by (simp add: webhook_receive_def required_string_def)

section \<open>The failed state: results\<close>

lemma apply_op_error_message:
  "(row_error_message r = None) = (row_status r \<noteq> Failed) \<Longrightarrow>
   (row_error_message (apply_op op r) = None) = (row_status (apply_op op r) \<noteq> Failed)"
  by (cases op) auto

lemma apply_ops_error_message:
  "(row_error_message r = None) = (row_status r \<noteq> Failed) \<Longrightarrow>
   (row_error_message (apply_ops ops r) = None) = (row_status (apply_ops ops r) \<noteq> Failed)"
proof (induction ops arbitrary: r)
  case Nil
  then show ?case by simp
next
  case (Cons op ops)
  from Cons.prems have "(row_error_message (apply_op op r) = None)
      = (row_status (apply_op op r) \<noteq> Failed)"
    by (rule apply_op_error_message)
  then show ?case by (simp add: Cons.IH)
qed

lemma reachable_error_message:
  "(row_error_message (apply_ops ops new_row) = None)
     = (row_status (apply_ops ops new_row) \<noteq> Failed)"
  by (rule apply_ops_error_message) (simp add: new_row_def)

lemma status_key_failed: "(status_key st = ''failed'') = (st = Failed)"
  by (cases st) simp_all

lemma failure_reason_shown:
  "failure_reason s =
     (if status s = ''failed''
      then Some (case error_message s of
                   None \<Rightarrow> ''An unknown error occurred''
                 | Some m \<Rightarrow> if m = [] then ''An unknown error occurred'' else m)
      else None)"
  by (simp add: failure_reason_def or_default_def)

text \<open>
  C7 as stated fails: a failed scan whose \<open>error_message\<close> is present but empty is
  shown with the default message, so the default is not substituted only when the
  message is absent.
\<close>

theorem empty_error_message_shows_default:
  "error_message \<lparr>scan_id = 1, status = ''failed'', error_message = Some '''',
       vulnerabilities = []\<rparr> \<noteq> None
   \<and> failure_reason \<lparr>scan_id = 1, status = ''failed'', error_message = Some '''',
       vulnerabilities = []\<rparr> = Some ''An unknown error occurred''"
  by (simp add: failure_reason_def or_default_def)

text \<open>
  C7, amended.  Every row reached from a new row carries exactly one \<open>error_message\<close>
  string when it is failed, and the page shows that string as the failure reason, with the
  default message in its place when the string is empty (as the page does when the field
  is absent); a row in any other status carries no \<open>error_message\<close> and the page shows
  no failure reason for it.
\<close>

theorem failed_row_error_message:
  "(row_status (apply_ops ops new_row) = Failed \<longrightarrow>
      (\<exists>msg. row_error_message (apply_ops ops new_row) = Some msg
         \<and> failure_reason (row_view n vs (apply_ops ops new_row))
             = Some (if msg = [] then ''An unknown error occurred'' else msg)))
   \<and> (row_status (apply_ops ops new_row) \<noteq> Failed \<longrightarrow>
        row_error_message (apply_ops ops new_row) = None
        \<and> failure_reason (row_view n vs (apply_ops ops new_row)) = None)
   \<and> failure_reason (s\<lparr>status := ''failed'', error_message := None\<rparr>)
       = Some ''An unknown error occurred''"
proof -
  let ?r = "apply_ops ops new_row"
  have inv: "(row_error_message ?r = None) = (row_status ?r \<noteq> Failed)"
    by (rule reachable_error_message)
  have view: "failure_reason (row_view n vs ?r) =
      (if row_status ?r = Failed
       then Some (or_default (row_error_message ?r) ''An unknown error occurred'')
       else None)"
    by (simp add: failure_reason_def row_view_def status_key_failed)
  show ?thesis
  proof (cases "row_status ?r = Failed")
    case True
    with inv obtain msg where "row_error_message ?r = Some msg" by auto
    with True view show ?thesis by (simp add: or_default_def failure_reason_def)
  next
    case False
    with inv view show ?thesis by (simp add: or_default_def failure_reason_def)
  qed
qed

theorem failed_row_error_message_witness:
  "row_status (apply_ops [Start, Fail ''java not found''] new_row) = Failed
   \<and> failure_reason (row_view 5 [] (apply_ops [Start, Fail ''java not found''] new_row))
       = Some ''java not found''
   \<and> row_status (apply_ops [Start, Complete] new_row) \<noteq> Failed
   \<and> row_error_message (apply_ops [Start, Complete] new_row) = None
   \<and> failure_reason (row_view 5 [] (apply_ops [Start, Complete] new_row)) = None"
proof -
  have f: "row_status (apply_ops [Start, Fail ''java not found''] new_row) = Failed"
    and m: "row_error_message (apply_ops [Start, Fail ''java not found''] new_row)
              = Some ''java not found''"
    and c: "row_status (apply_ops [Start, Complete] new_row) \<noteq> Failed"
    by (simp_all add: new_row_def)
  from failed_row_error_message [of "[Start, Fail ''java not found'']" 5 "[]"] f m
  have 1: "failure_reason (row_view 5 [] (apply_ops [Start, Fail ''java not found''] new_row))
       = Some ''java not found''" by auto
  from failed_row_error_message [of "[Start, Complete]" 5 "[]"] c
  have 2: "row_error_message (apply_ops [Start, Complete] new_row) = None
     \<and> failure_reason (row_view 5 [] (apply_ops [Start, Complete] new_row)) = None"
    by blast
  from f c 1 2 show ?thesis by simp
qed

section \<open>build-msi.ps1: results\<close>

lemma first_stop_Some: "first_stop steps = Some e \<Longrightarrow> Some e \<in> set steps"
  by (induction steps rule: first_stop.induct) auto

lemma first_stop_None: "first_stop steps = None \<longleftrightarrow> (\<forall>s \<in> set steps. s = None)"
  by (induction steps rule: first_stop.induct) auto

lemma first_stop_not_built:
  assumes "list_all (\<lambda>s. s \<noteq> Some (Built f)) steps"
  shows "first_stop steps \<noteq> Some (Built f)"
proof
  assume "first_stop steps = Some (Built f)"
  then have "Some (Built f) \<in> set steps" by (rule first_stop_Some)
  with assms show False by (auto simp: list_all_iff)
qed

lemma require_not_built: "(\<And>f. e \<noteq> Built f) \<Longrightarrow> require ok e \<noteq> Some (Built f)"
  by (auto simp: require_def)

lemma require_None: "require ok e = None \<longleftrightarrow> ok"
  by (auto simp: require_def)

lemma Download_not_built: "Download env a \<noteq> Some (Built f)"
  by (simp add: Download_def require_not_built)

lemma download_unless_skipped_not_built: "download_unless_skipped p env a \<noteq> Some (Built f)"
  by (simp add: download_unless_skipped_def Download_not_built)

lemma locate_wix_not_built: "locate_wix root p env \<noteq> Some (Built f)"
proof (cases "env WixOnPath")
  case True
  then show ?thesis by (simp add: locate_wix_def)
next
  case False
  have "first_stop
             [download_unless_skipped p env WiXZip,
              require (env (Expanded WiXZip)) (Threw (Expanded WiXZip)),
              exe_extracted root env HeatExe,
              exe_extracted root env CandleExe,
              exe_extracted root env LightExe] \<noteq> Some (Built f)"
    by (rule first_stop_not_built)
      (simp add: exe_extracted_def require_not_built download_unless_skipped_not_built)
  with False show ?thesis by (simp add: locate_wix_def)
qed

lemma check_tools_not_built: "check_tools env \<noteq> Some (Built f)"
  unfolding check_tools_def
  by (rule first_stop_not_built) (simp add: check_tool_def require_not_built)

lemma build_venv_not_built: "build_venv env \<noteq> Some (Built f)"
  unfolding build_venv_def
  by (rule first_stop_not_built) (simp add: require_not_built)

lemma frontend_build_not_built: "frontend_build p env \<noteq> Some (Built f)"
proof (cases "SkipFrontendBuild p")
  case True
  then show ?thesis by (simp add: frontend_build_def require_not_built)
next
  case False
  have "first_stop
             [require (env NpmInstalled) (Exit1 ''npm install failed''),
              require (env NpmBuilt) (Exit1 ''npm run build failed'')] \<noteq> Some (Built f)"
    by (rule first_stop_not_built) (simp add: require_not_built)
  with False show ?thesis by (simp add: frontend_build_def)
qed

lemma pyinstaller_bundle_not_built: "pyinstaller_bundle p env \<noteq> Some (Built f)"
  by (simp add: pyinstaller_bundle_def require_not_built)

lemma stage_jre_not_built: "stage_jre root p env \<noteq> Some (Built f)"
  unfolding stage_jre_def
  by (rule first_stop_not_built)
    (simp add: require_not_built download_unless_skipped_not_built)

lemma stage_owasp_dc_not_built: "stage_owasp_dc root p env \<noteq> Some (Built f)"
  unfolding stage_owasp_dc_def
  by (rule first_stop_not_built)
    (simp add: require_not_built download_unless_skipped_not_built)

lemma Heat_not_built: "Heat env h \<noteq> Some (Built f)"
  unfolding Heat_def
  by (rule first_stop_not_built) (simp add: require_not_built)

lemma harvest_all_not_built: "harvest_all env \<noteq> Some (Built f)"
  unfolding harvest_all_def
  by (rule first_stop_not_built) (simp add: Heat_not_built)

lemma compile_and_link_not_built: "compile_and_link env \<noteq> Some (Built f)"
  unfolding compile_and_link_def
  by (rule first_stop_not_built) (simp add: require_not_built)

lemma before_frontend_not_built: "before_frontend root p env \<noteq> Some (Built f)"
  unfolding before_frontend_def
  by (rule first_stop_not_built)
    (simp add: locate_wix_not_built check_tools_not_built build_venv_not_built)

lemma before_pyinstaller_not_built: "before_pyinstaller root p env \<noteq> Some (Built f)"
  unfolding before_pyinstaller_def
  by (rule first_stop_not_built)
    (simp add: before_frontend_not_built frontend_build_not_built)

lemma build_msi_Built:
  "build_msi root p env = Built f \<longleftrightarrow>
     f = MsiOut root p \<and> before_pyinstaller root p env = None \<and> pyinstaller_bundle p env = None
     \<and> stage_jre root p env = None \<and> stage_owasp_dc root p env = None
     \<and> harvest_all env = None \<and> compile_and_link env = None"
proof (cases "first_stop [before_pyinstaller root p env, pyinstaller_bundle p env,
     stage_jre root p env, stage_owasp_dc root p env, harvest_all env, compile_and_link env]")
  case None
  then show ?thesis by (auto simp: build_msi_def first_stop_None)
next
  case (Some e)
  have "first_stop [before_pyinstaller root p env, pyinstaller_bundle p env,
     stage_jre root p env, stage_owasp_dc root p env, harvest_all env, compile_and_link env]
     \<noteq> Some (Built f)"
    by (rule first_stop_not_built)
      (simp add: before_pyinstaller_not_built pyinstaller_bundle_not_built stage_jre_not_built
        stage_owasp_dc_not_built harvest_all_not_built compile_and_link_not_built)
  with Some have "e \<noteq> Built f" by simp
  moreover from Some have "\<not> (before_pyinstaller root p env = None \<and> pyinstaller_bundle p env = None
     \<and> stage_jre root p env = None \<and> stage_owasp_dc root p env = None
     \<and> harvest_all env = None \<and> compile_and_link env = None)"
    using first_stop_None [of "[before_pyinstaller root p env, pyinstaller_bundle p env,
     stage_jre root p env, stage_owasp_dc root p env, harvest_all env, compile_and_link env]"]
    by auto
  ultimately show ?thesis using Some by (simp add: build_msi_def)
qed

lemma compile_and_link_None:
  "compile_and_link env = None \<longleftrightarrow> env Candled \<and> env Linked \<and> env MsiFound"
  by (auto simp: compile_and_link_def first_stop_None require_None)

lemma frontend_guard:
  "SkipFrontendBuild p \<Longrightarrow> \<not> env FrontendDistExists \<Longrightarrow>
     frontend_build p env
       = Some (Exit1 ''frontend/dist missing -- run without -SkipFrontendBuild first.'')"
  by (simp add: frontend_build_def require_def)

lemma pyinstaller_guard:
  "SkipPyInstaller p \<Longrightarrow> \<not> env PyDistExists \<Longrightarrow>
     pyinstaller_bundle p env
       = Some (Exit1 ''PyInstaller output missing -- run without -SkipPyInstaller first.'')"
  by (simp add: pyinstaller_bundle_def require_def)

lemma before_pyinstaller_None:
  "before_pyinstaller root p env = None \<longleftrightarrow>
     before_frontend root p env = None \<and> frontend_build p env = None"
  by (auto simp: before_pyinstaller_def first_stop_None)

lemmas build_steps_defs =
  build_msi_def before_pyinstaller_def before_frontend_def locate_wix_def exe_extracted_def
  check_tools_def check_tool_def build_venv_def frontend_build_def pyinstaller_bundle_def
  stage_jre_def stage_owasp_dc_def harvest_all_def Heat_def compile_and_link_def
  download_unless_skipped_def Download_def

lemma skip_frontend_runs_no_npm:
  "SkipFrontendBuild p \<Longrightarrow>
     build_msi root p (env(NpmInstalled := a, NpmBuilt := b)) = build_msi root p env"
  by (simp add: build_steps_defs)

lemma skip_pyinstaller_runs_no_pyinstaller:
  "SkipPyInstaller p \<Longrightarrow>
     build_msi root p (env(PyInstallerRan := a)) = build_msi root p env"
  by (simp add: build_steps_defs)

lemma skip_downloads_downloads_nothing:
  "SkipDownloads p \<Longrightarrow>
     build_msi root p (env(Cached z := a, Downloaded z := b)) = build_msi root p env"
  by (simp add: build_steps_defs)

text \<open>
  C8.  The script takes the switches \<open>SkipFrontendBuild\<close>, \<open>SkipPyInstaller\<close> and
  \<open>SkipDownloads\<close>.  A run that reaches its end has linked the MSI with \<open>light.exe\<close>,
  found it with \<open>Get-Item\<close>, and the MSI is \<open>owasp-scanner-<Version>.msi\<close> in the
  script's directory.  With \<open>-SkipFrontendBuild\<close> and no \<open>frontend/dist\<close>, or with
  \<open>-SkipPyInstaller\<close> and no PyInstaller output directory, no run builds an MSI, and a
  run that gets as far as the skipped step ends there with \<open>Fail\<close>, that is with
  \<open>exit 1\<close>.
\<close>

theorem build_msi_skip_guards:
  "(build_msi root p env = Built f \<longrightarrow>
      f = Join_Path root (''owasp-scanner-'' @ Version p @ ''.msi'')
      \<and> env Linked \<and> env MsiFound)
   \<and> (SkipFrontendBuild p \<and> \<not> env FrontendDistExists \<longrightarrow>
        build_msi root p env \<noteq> Built f
        \<and> (before_frontend root p env = None \<longrightarrow>
             build_msi root p env
               = Exit1 ''frontend/dist missing -- run without -SkipFrontendBuild first.''))
   \<and> (SkipPyInstaller p \<and> \<not> env PyDistExists \<longrightarrow>
        build_msi root p env \<noteq> Built f
        \<and> (before_pyinstaller root p env = None \<longrightarrow>
             build_msi root p env
               = Exit1 ''PyInstaller output missing -- run without -SkipPyInstaller first.''))"
proof (intro conjI impI)
  assume "build_msi root p env = Built f"
  then have b: "f = MsiOut root p" "compile_and_link env = None"
    by (simp_all add: build_msi_Built)
  from b(1) show "f = Join_Path root (''owasp-scanner-'' @ Version p @ ''.msi'')"
    by (simp add: MsiOut_def)
  from b(2) show "env Linked" "env MsiFound"
    by (simp_all add: compile_and_link_None)
next
  assume a: "SkipFrontendBuild p \<and> \<not> env FrontendDistExists"
  then have g: "frontend_build p env
       = Some (Exit1 ''frontend/dist missing -- run without -SkipFrontendBuild first.'')"
    by (simp add: frontend_guard)
  then show "build_msi root p env \<noteq> Built f"
    by (simp add: build_msi_Built before_pyinstaller_None)
  assume "before_frontend root p env = None"
  with g show "build_msi root p env
       = Exit1 ''frontend/dist missing -- run without -SkipFrontendBuild first.''"
    by (simp add: build_msi_def before_pyinstaller_def)
next
  assume a: "SkipPyInstaller p \<and> \<not> env PyDistExists"
  then have g: "pyinstaller_bundle p env
       = Some (Exit1 ''PyInstaller output missing -- run without -SkipPyInstaller first.'')"
    by (simp add: pyinstaller_guard)
  then show "build_msi root p env \<noteq> Built f"
    by (simp add: build_msi_Built)
  assume "before_pyinstaller root p env = None"
  with g show "build_msi root p env
       = Exit1 ''PyInstaller output missing -- run without -SkipPyInstaller first.''"
    by (simp add: build_msi_def)
qed

theorem build_msi_skip_guards_witness:
  "build_msi ''C:'' (default_params\<lparr>SkipFrontendBuild := True\<rparr>)
       (all_fine(FrontendDistExists := False))
     = Exit1 ''frontend/dist missing -- run without -SkipFrontendBuild first.''
   \<and> build_msi ''C:'' (default_params\<lparr>SkipPyInstaller := True\<rparr>)
       (all_fine(PyDistExists := False))
     = Exit1 ''PyInstaller output missing -- run without -SkipPyInstaller first.''
   \<and> build_msi ''C:'' default_params all_fine
     = Built (Join_Path ''C:'' ''owasp-scanner-1.0.0.msi'')"
proof -
  let ?p1 = "default_params\<lparr>SkipFrontendBuild := True\<rparr>"
  let ?e1 = "all_fine(FrontendDistExists := False)"
  let ?p2 = "default_params\<lparr>SkipPyInstaller := True\<rparr>"
  let ?e2 = "all_fine(PyDistExists := False)"
  have h1: "SkipFrontendBuild ?p1 \<and> \<not> ?e1 FrontendDistExists" by simp
  have r1: "before_frontend ''C:'' ?p1 ?e1 = None"
    by (simp add: before_frontend_def locate_wix_def check_tools_def check_tool_def
        build_venv_def require_def all_fine_def)
  have h2: "SkipPyInstaller ?p2 \<and> \<not> ?e2 PyDistExists" by simp
  have r2: "before_pyinstaller ''C:'' ?p2 ?e2 = None"
    by (simp add: before_pyinstaller_def before_frontend_def locate_wix_def check_tools_def
        check_tool_def build_venv_def frontend_build_def require_def all_fine_def
        default_params_def)
  have b: "build_msi ''C:'' default_params all_fine = Built (MsiOut ''C:'' default_params)"
    by (simp add: build_steps_defs require_def all_fine_def default_params_def)
  from build_msi_skip_guards [of "''C:''" ?p1 ?e1] h1 r1
  have 1: "build_msi ''C:'' ?p1 ?e1
     = Exit1 ''frontend/dist missing -- run without -SkipFrontendBuild first.''"
    by blast
  from build_msi_skip_guards [of "''C:''" ?p2 ?e2] h2 r2
  have 2: "build_msi ''C:'' ?p2 ?e2
     = Exit1 ''PyInstaller output missing -- run without -SkipPyInstaller first.''"
    by blast
  from build_msi_skip_guards [of "''C:''" default_params all_fine "MsiOut ''C:'' default_params"] b
  have 3: "MsiOut ''C:'' default_params = Join_Path ''C:'' (''owasp-scanner-'' @ Version default_params @ ''.msi'')"
    by blast
  from 1 2 3 b show ?thesis by (simp add: default_params_def)
qed

section \<open>Runs: results\<close>

lemma like_happy_cut_short: "like_happy p w \<Longrightarrow> cut_short p w"
  by (simp add: like_happy_def cut_short_def)

lemma happy_world [simp]: "answers (happy w) = answers w" "results (happy w) s = Success"
  by (simp_all add: happy_def)

lemma like_happy_op_step [simp]: "like_happy (op_step f a s) w"
  by (cases "results w s") (simp_all add: like_happy_def op_step_def labels_def)

lemma like_happy_calls [simp]:
  "like_happy (program s) w" "like_happy (program_checked s) w" "like_happy (raising s) w"
  "like_happy (swallowed s) w" "like_happy (caught_exit s) w" "like_happy (caught_return s) w"
  by (simp_all add: program_def program_checked_def raising_def swallowed_def caught_exit_def
      caught_return_def)

lemma like_happy_skip [simp]: "like_happy skip w"
  by (simp add: like_happy_def skip_def labels_def)

lemma like_happy_finish [simp]: "like_happy (finish e) w"
  by (simp add: like_happy_def finish_def labels_def)

lemma like_happy_if_test [simp]:
  "like_happy a w \<Longrightarrow> like_happy b w \<Longrightarrow> like_happy (if_test q a b) w"
  by (simp add: like_happy_def if_test_def)

lemma like_happy_unawaited:
  "labels (p w) = labels (p (happy w)) \<Longrightarrow> like_happy (unawaited p) w"
  by (simp add: like_happy_def unawaited_def labels_def)

lemma labels_op_step [simp]: "labels (op_step f a s w) = [s]"
  by (simp add: op_step_def labels_def)

lemma like_happy_unawaited_calls [simp]:
  "like_happy (unawaited (raising s)) w" "like_happy (unawaited (swallowed s)) w"
  by (simp_all add: like_happy_unawaited raising_def swallowed_def)

lemma like_happy_Cons:
  assumes s: "like_happy s w" and ss: "like_happy (in_turn ss) w"
  shows "like_happy (in_turn (s # ss)) w"
proof -
  let ?l = "map fst :: (site \<times> outcome) list \<Rightarrow> site list"
  obtain t e where sw: "s w = (t, e)" by (cases "s w")
  obtain th eh where sh: "s (happy w) = (th, eh)" by (cases "s (happy w)")
  obtain u f where ssw: "in_turn ss w = (u, f)" by (cases "in_turn ss w")
  obtain uh fh where ssh: "in_turn ss (happy w) = (uh, fh)" by (cases "in_turn ss (happy w)")
  from s sw sh have p1: "prefix (?l t) (?l th)"
    and g1: "e = Going \<Longrightarrow> ?l t = ?l th \<and> eh = Going"
    by (simp_all add: like_happy_def labels_def)
  from ss ssw ssh have p2: "prefix (?l u) (?l uh)"
    and g2: "f = Going \<Longrightarrow> ?l u = ?l uh \<and> fh = Going"
    by (simp_all add: like_happy_def labels_def)
  show ?thesis
  proof (cases "e = Going")
    case True
    with g1 have eq: "?l t = ?l th" and eh: "eh = Going"
      by simp_all
    from True eh sw sh ssw ssh eq p2 g2 show ?thesis
      by (simp add: like_happy_def labels_def)
  next
    case False
    then have "in_turn (s # ss) w = (t, e)" using sw by (cases e) simp_all
    moreover have "prefix (?l t) (labels (in_turn (s # ss) (happy w)))"
    proof (cases "eh = Going")
      case True
      with sh ssh p1 show ?thesis by (simp add: labels_def)
    next
      case False
      then have "in_turn (s # ss) (happy w) = (th, eh)" using sh by (cases eh) simp_all
      with p1 show ?thesis by (simp add: labels_def)
    qed
    ultimately show ?thesis using False by (simp add: like_happy_def labels_def)
  qed
qed

lemma like_happy_Nil: "like_happy (in_turn []) w"
  by (simp add: like_happy_def labels_def)

lemma like_happy_steps: "list_all (\<lambda>s. like_happy s w) ss \<Longrightarrow> like_happy (in_turn ss) w"
  by (induction ss) (simp_all add: like_happy_Cons like_happy_Nil)

subsection \<open>The batch files and setup-windows.ps1\<close>

lemma like_happy_setup_windows_bat: "like_happy setup_windows_bat_run w"
  by (simp add: setup_windows_bat_run_def)

lemma like_happy_start_windows_bat: "like_happy start_windows_bat_run w"
  by (simp add: start_windows_bat_run_def like_happy_steps)

lemma like_happy_Ensure_Package [simp]: "like_happy (Ensure_Package_run i d t) w"
  by (simp add: Ensure_Package_run_def)

lemma like_happy_prerequisites: "like_happy prerequisites_run w"
  by (simp add: prerequisites_run_def like_happy_steps)

lemma like_happy_dependency_check: "like_happy dependency_check_run w"
  by (simp add: dependency_check_run_def like_happy_steps)

lemma like_happy_directories: "like_happy directories_run w"
  by (simp add: directories_run_def make_directory_run_def like_happy_steps)

lemma like_happy_install_requirements:
  "results w pip_install \<noteq> Failure \<Longrightarrow> like_happy install_requirements_run w"
  by (cases "results w pip_install")
    (simp_all add: like_happy_def install_requirements_run_def labels_def)

lemma like_happy_python_backend:
  "results w pip_install \<noteq> Failure \<Longrightarrow> like_happy python_backend_run w"
  by (simp add: python_backend_run_def like_happy_steps like_happy_install_requirements)

lemma like_happy_npm_packages: "like_happy npm_packages_run w"
  by (simp add: npm_packages_run_def)

lemma like_happy_env_file: "like_happy env_file_run w"
  by (simp add: env_file_run_def like_happy_steps)

lemma like_happy_setup_windows_ps1:
  "results w pip_install \<noteq> Failure \<Longrightarrow> like_happy setup_windows_ps1_run w"
  by (simp add: setup_windows_ps1_run_def like_happy_steps like_happy_prerequisites
      like_happy_dependency_check like_happy_directories like_happy_python_backend
      like_happy_npm_packages like_happy_env_file)

lemma install_requirements_attempts:
  "map fst (fst (install_requirements_run w))
     = (if results w pip_install = Failure then [pip_install, pip_retry] else [pip_install])"
  by (cases "results w pip_install"; cases "results w pip_retry")
    (simp_all add: install_requirements_run_def)

lemma install_requirements_exit:
  "(snd (install_requirements_run w) = Exit 1)
     = (results w pip_install = Failure \<and> results w pip_retry = Failure)"
  by (cases "results w pip_install"; cases "results w pip_retry")
    (simp_all add: install_requirements_run_def)

lemma install_requirements_going:
  "(snd (install_requirements_run w) = Going)
     = (results w pip_install = Success
        \<or> results w pip_install = Failure \<and> results w pip_retry = Success)"
  by (cases "results w pip_install"; cases "results w pip_retry")
    (simp_all add: install_requirements_run_def)

lemma install_requirements_cut_short:
  "cut_short install_requirements_run w = (results w pip_install \<noteq> Failure)"
  by (cases "results w pip_install"; cases "results w pip_retry")
    (simp_all add: cut_short_def install_requirements_run_def labels_def pip_install_def
      pip_retry_def)

lemma python_backend_reaches_install:
  "(pip_install \<in> fst ` set (fst (python_backend_run w)))
     = ((answers w venv_test \<or> results w venv_create \<noteq> Abort)
        \<and> results w pip_upgrade \<noteq> Abort)"
proof -
  have neq: "pip_install \<noteq> venv_create" "pip_install \<noteq> pip_upgrade" "pip_install \<noteq> pip_retry"
    by (simp_all add: pip_install_def venv_create_def pip_upgrade_def pip_retry_def)
  show ?thesis
    using neq
    by (cases "results w venv_create"; cases "results w pip_upgrade";
        cases "results w pip_install"; cases "results w pip_retry")
      (simp_all add: python_backend_run_def if_test_def skip_def program_def op_step_def
        install_requirements_run_def)
qed

subsection \<open>The build scripts\<close>

lemma like_happy_Fail [simp]: "like_happy Fail_run w"
  by (simp add: Fail_run_def)

lemma like_happy_Download [simp]: "like_happy (Download_run dest) w"
  by (simp add: Download_run_def)

lemma like_happy_download_unless_skipped [simp]:
  "like_happy (download_unless_skipped_run p dest) w"
  by (simp add: download_unless_skipped_run_def)

lemma like_happy_remove_if_there [simp]: "like_happy (remove_if_there line path) w"
  by (simp add: remove_if_there_def)

lemma like_happy_bootstrap_wix [simp]: "like_happy (bootstrap_wix_run p) w"
  by (simp add: bootstrap_wix_run_def like_happy_steps)

lemma like_happy_locate_wix: "like_happy (locate_wix_run p) w"
  by (simp add: locate_wix_run_def)

lemma like_happy_check_tools: "like_happy check_tools_run w"
  by (simp add: check_tools_run_def like_happy_steps)

lemma like_happy_build_venv: "like_happy build_venv_run w"
  by (simp add: build_venv_run_def like_happy_steps)

lemma like_happy_frontend_build: "like_happy (frontend_build_run p) w"
  by (simp add: frontend_build_run_def like_happy_steps)

lemma like_happy_pyinstaller_bundle: "like_happy (pyinstaller_bundle_run p) w"
  by (simp add: pyinstaller_bundle_run_def like_happy_steps)

lemma like_happy_stage_jre: "like_happy (stage_jre_run p) w"
  by (simp add: stage_jre_run_def like_happy_steps)

lemma like_happy_stage_owasp_dc: "like_happy (stage_owasp_dc_run p) w"
  by (simp add: stage_owasp_dc_run_def like_happy_steps)

lemma like_happy_Heat [simp]: "like_happy (Heat_run cg out_file) w"
  by (simp add: Heat_run_def like_happy_steps)

lemma like_happy_harvest: "like_happy harvest_run w"
  by (simp add: harvest_run_def like_happy_steps)

lemma like_happy_compile_and_link: "like_happy compile_and_link_run w"
  by (simp add: compile_and_link_run_def like_happy_steps)

lemma like_happy_build_msi: "like_happy (build_msi_run p) w"
  by (simp add: build_msi_run_def like_happy_steps like_happy_locate_wix like_happy_check_tools
      like_happy_build_venv like_happy_frontend_build like_happy_pyinstaller_bundle
      like_happy_stage_jre like_happy_stage_owasp_dc like_happy_harvest
      like_happy_compile_and_link)

lemma like_happy_bundle_prerequisites: "like_happy bundle_prerequisites_run w"
  by (simp add: bundle_prerequisites_run_def Require_Command_run_def
      Require_PythonPackage_run_def like_happy_steps)

lemma like_happy_bundle_frontend: "like_happy (bundle_frontend_run f) w"
  by (simp add: bundle_frontend_run_def like_happy_steps)

lemma like_happy_bundle_pyinstaller: "like_happy (bundle_pyinstaller_run y) w"
  by (simp add: bundle_pyinstaller_run_def like_happy_steps)

lemma like_happy_bundle_stage_owasp_dc: "like_happy (bundle_stage_owasp_dc_run b) w"
  by (simp add: bundle_stage_owasp_dc_run_def like_happy_steps)

lemma like_happy_bundle_harvest: "like_happy (bundle_harvest_run b) w"
  by (simp add: bundle_harvest_run_def like_happy_steps)

lemma like_happy_build_msi_bundling: "like_happy (build_msi_bundling_run b f y) w"
  by (simp add: build_msi_bundling_run_def like_happy_steps like_happy_bundle_prerequisites
      like_happy_bundle_frontend like_happy_bundle_pyinstaller like_happy_bundle_stage_owasp_dc
      like_happy_bundle_harvest)

lemma like_happy_pyinstaller_spec: "like_happy pyinstaller_spec_run w"
  by (simp add: pyinstaller_spec_run_def like_happy_steps)

subsection \<open>The handlers and the backend\<close>

lemma like_happy_handlers:
  "like_happy (api_request_run s) w"
  "like_happy (LoginPage_handleSubmit_run mode) w"
  "like_happy DashboardPage_fetchScans_run w"
  "like_happy DashboardPage_effect_run w"
  "like_happy (DashboardPage_tick_run captured) w"
  "like_happy DashboardPage_handleDelete_run w"
  "like_happy ResultsPage_fetchScan_run w"
  "like_happy ScanLog_fetchLog_run w"
  "like_happy (FileUpload_handleUpload_run st) w"
  "like_happy (ScanResults_handleAnalyze_run ids) w"
  "like_happy ScanResults_handleSuppress_run w"
  "like_happy ScanResults_handleDownload_run w"
  "like_happy IntegrationsPage_fetchIntegrations_run w"
  "like_happy CicdIntegration_handleSave_run w"
  "like_happy CicdIntegration_handleDelete_run w"
  "like_happy CicdIntegration_handleTrigger_run w"
  "like_happy local_handler_run w"
  by (simp_all add: api_request_run_def local_handler_run_def LoginPage_handleSubmit_run_def
      DashboardPage_fetchScans_run_def DashboardPage_effect_run_def DashboardPage_tick_run_def
      DashboardPage_handleDelete_run_def ResultsPage_fetchScan_run_def ScanLog_fetchLog_run_def
      FileUpload_handleUpload_run_def ScanResults_handleAnalyze_run_def
      ScanResults_handleSuppress_run_def ScanResults_handleDownload_run_def
      IntegrationsPage_fetchIntegrations_run_def CicdIntegration_handleSave_run_def
      CicdIntegration_handleDelete_run_def CicdIntegration_handleTrigger_run_def
      like_happy_steps)

lemma like_happy_backend:
  "like_happy backend_rest_handler_run w"
  "like_happy backend_scan_run w"
  "like_happy backend_analysis_run w"
  by (simp_all add: backend_rest_handler_run_def backend_scan_run_def backend_analysis_run_def
      like_happy_steps)

lemma like_happy_run_of:
  "cp \<noteq> Setup_windows_ps1 \<or> results w pip_install \<noteq> Failure \<Longrightarrow> like_happy (run_of cp) w"
  by (cases cp)
    (simp_all add: like_happy_setup_windows_bat like_happy_start_windows_bat
      like_happy_setup_windows_ps1 like_happy_build_msi like_happy_build_msi_bundling
      like_happy_pyinstaller_spec like_happy_handlers like_happy_backend)

subsection \<open>The claim\<close>

text \<open>
  C2 as stated fails: with everything in place and every operation succeeding but the
  first \<open>pip install -r requirements.txt\<close>, which exits with a code other than 0, the
  install script runs the installation a second time by itself (with
  \<open>--only-binary ":all:"\<close>) and then goes on to its end.  This code path re-attempts a
  failed operation automatically: the run has an attempt that the run without failures
  does not have.
\<close>

theorem pip_install_retried_automatically:
  "run_of Setup_windows_ps1
     \<lparr>answers = (\<lambda>q. True), results = (\<lambda>s. Success)(pip_install := Failure)\<rparr>
     = ([((30, ''python --version''), Success),
         ((30, ''node --version''), Success),
         ((30, ''java --version''), Success),
         ((64, ''python --version''), Success),
         ((65, ''node --version''), Success),
         ((66, ''java -version''), Success),
         (pip_upgrade, Success),
         (pip_install, Failure),
         (pip_retry, Success),
         ((150, ''npm install''), Success)],
        Going)
   \<and> \<not> cut_short (run_of Setup_windows_ps1)
        \<lparr>answers = (\<lambda>q. True), results = (\<lambda>s. Success)(pip_install := Failure)\<rparr>"
proof -
  let ?w = "\<lparr>answers = (\<lambda>q. True), results = (\<lambda>s. Success)(pip_install := Failure)\<rparr>"
  have run: "setup_windows_ps1_run ?w
     = ([((30, ''python --version''), Success),
         ((30, ''node --version''), Success),
         ((30, ''java --version''), Success),
         ((64, ''python --version''), Success),
         ((65, ''node --version''), Success),
         ((66, ''java -version''), Success),
         (pip_upgrade, Success),
         (pip_install, Failure),
         (pip_retry, Success),
         ((150, ''npm install''), Success)],
        Going)"
    by (simp add: setup_windows_ps1_run_def prerequisites_run_def Ensure_Package_run_def
        dependency_check_run_def directories_run_def make_directory_run_def
        python_backend_run_def install_requirements_run_def npm_packages_run_def
        env_file_run_def if_test_def skip_def program_def caught_exit_def op_step_def
        pip_install_def pip_retry_def pip_upgrade_def venv_test_def)
  have happy_run: "labels (setup_windows_ps1_run (happy ?w))
     = [(30, ''python --version''), (30, ''node --version''), (30, ''java --version''),
        (64, ''python --version''), (65, ''node --version''), (66, ''java -version''),
        (130, ''pip install --upgrade pip''), (133, ''pip install -r requirements.txt''),
        (150, ''npm install'')]"
    by (simp add: setup_windows_ps1_run_def prerequisites_run_def Ensure_Package_run_def
        dependency_check_run_def directories_run_def make_directory_run_def
        python_backend_run_def install_requirements_run_def npm_packages_run_def
        env_file_run_def if_test_def skip_def program_def caught_exit_def op_step_def
        pip_install_def pip_retry_def pip_upgrade_def venv_test_def labels_def happy_def)
  have run_labels: "labels (setup_windows_ps1_run ?w)
     = [(30, ''python --version''), (30, ''node --version''), (30, ''java --version''),
        (64, ''python --version''), (65, ''node --version''), (66, ''java -version''),
        (130, ''pip install --upgrade pip''), (133, ''pip install -r requirements.txt''),
        (136, ''pip install -r requirements.txt --only-binary :all:''),
        (150, ''npm install'')]"
    unfolding run by (simp add: labels_def pip_install_def pip_retry_def pip_upgrade_def)
  have "\<not> cut_short setup_windows_ps1_run ?w"
    unfolding cut_short_def run_labels happy_run by simp
  with run show ?thesis by simp
qed

text \<open>
  C2, amended.  Nothing in the system retries, breaks a circuit or recovers from a
  partial failure, with the single exception of an automatic retry in the
  dependency-installation step of the install script.  In every code path (the batch
  files, the install script, both build scripts, the PyInstaller build script, every
  handler and timer callback of the pages, and the backend's components as the spec
  describes them) a failure is ignored or cuts the run short: what the run attempts is
  an initial part of what it attempts when nothing fails, unless the code path is the
  install script and its \<open>pip install -r requirements.txt\<close> has failed.  That installation is
  attempted at most once, only if neither \<open>python -m venv\<close> nor the upgrade of pip was
  stopped by a program that is not found; exactly when it exits with a code other
  than 0 the script attempts it once more with \<open>--only-binary ":all:"\<close>, exits with
  code 1 exactly when that attempt fails too, and goes on when one of the two attempts
  succeeds.  No other code path re-attempts a failed operation, and a failed call
  leaves the polling of the pages as it was: the results page keeps or drops its timer
  as before, the dashboard's next tick calls or does not call as before, and the log
  keeps its text.
\<close>

theorem only_the_pip_install_is_retried:
  "(cut_short (run_of cp) w \<or> cp = Setup_windows_ps1 \<and> results w pip_install = Failure)
   \<and> cut_short install_requirements_run w = (results w pip_install \<noteq> Failure)
   \<and> map fst (fst (install_requirements_run w))
       = (if results w pip_install = Failure then [pip_install, pip_retry] else [pip_install])
   \<and> (snd (install_requirements_run w) = Exit 1)
       = (results w pip_install = Failure \<and> results w pip_retry = Failure)
   \<and> (snd (install_requirements_run w) = Going)
       = (results w pip_install = Success
          \<or> results w pip_install = Failure \<and> results w pip_retry = Success)
   \<and> (pip_install \<in> fst ` set (fst (python_backend_run w)))
       = ((answers w venv_test \<or> results w venv_create \<noteq> Abort)
          \<and> results w pip_upgrade \<noteq> Abort)
   \<and> results_poll_interval (page_scan (fetchScan_settles (Inl err) st))
       = results_poll_interval (page_scan st)
   \<and> snd (dashboard_step Tick (fst (fetchScans_settles (Inl err) d)))
       = snd (dashboard_step Tick d)
   \<and> fetchLog_settles (Inl err) log_text = log_text"
proof (intro conjI)
  show "cut_short (run_of cp) w \<or> cp = Setup_windows_ps1 \<and> results w pip_install = Failure"
    using like_happy_run_of [of cp w] like_happy_cut_short [of "run_of cp" w] by blast
  show "cut_short install_requirements_run w = (results w pip_install \<noteq> Failure)"
    by (rule install_requirements_cut_short)
  show "map fst (fst (install_requirements_run w))
       = (if results w pip_install = Failure then [pip_install, pip_retry] else [pip_install])"
    by (rule install_requirements_attempts)
  show "(snd (install_requirements_run w) = Exit 1)
       = (results w pip_install = Failure \<and> results w pip_retry = Failure)"
    by (rule install_requirements_exit)
  show "(snd (install_requirements_run w) = Going)
       = (results w pip_install = Success
          \<or> results w pip_install = Failure \<and> results w pip_retry = Success)"
    by (rule install_requirements_going)
  show "(pip_install \<in> fst ` set (fst (python_backend_run w)))
       = ((answers w venv_test \<or> results w venv_create \<noteq> Abort)
          \<and> results w pip_upgrade \<noteq> Abort)"
    by (rule python_backend_reaches_install)
  show "results_poll_interval (page_scan (fetchScan_settles (Inl err) st))
       = results_poll_interval (page_scan st)"
    by (simp add: fetchScan_settles_def)
  show "snd (dashboard_step Tick (fst (fetchScans_settles (Inl err) d)))
       = snd (dashboard_step Tick d)"
    by (simp add: fetchScans_settles_def)
  show "fetchLog_settles (Inl err) log_text = log_text"
    by (simp add: fetchLog_settles_def)
qed

theorem only_the_pip_install_is_retried_witness:
  "cut_short (run_of Setup_windows_ps1) \<lparr>answers = (\<lambda>q. True), results = (\<lambda>s. Success)\<rparr>
   \<and> cut_short (run_of (Build_msi default_params))
        \<lparr>answers = (\<lambda>q. True), results = (\<lambda>s. Success)((293, ''light.exe -out $MsiOut'') := Failure)\<rparr>
   \<and> snd (install_requirements_run
        \<lparr>answers = (\<lambda>q. True), results = (\<lambda>s. Failure)\<rparr>) = Exit 1
   \<and> map fst (fst (install_requirements_run
        \<lparr>answers = (\<lambda>q. True), results = (\<lambda>s. Failure)\<rparr>)) = [pip_install, pip_retry]"
proof -
  let ?ok = "\<lparr>answers = (\<lambda>q. True), results = (\<lambda>s. Success)\<rparr>"
  let ?light = "\<lparr>answers = (\<lambda>q. True),
      results = (\<lambda>s. Success)((293, ''light.exe -out $MsiOut'') := Failure)\<rparr>"
  let ?bad = "\<lparr>answers = (\<lambda>q. True), results = (\<lambda>s. Failure)\<rparr>"
  from only_the_pip_install_is_retried [of Setup_windows_ps1 ?ok]
  have 1: "cut_short (run_of Setup_windows_ps1) ?ok" by simp
  from only_the_pip_install_is_retried [of "Build_msi default_params" ?light]
  have 2: "cut_short (run_of (Build_msi default_params)) ?light" by simp
  from only_the_pip_install_is_retried [of Setup_windows_ps1 ?bad]
  have 3: "snd (install_requirements_run ?bad) = Exit 1"
    and 4: "map fst (fst (install_requirements_run ?bad)) = [pip_install, pip_retry]"
    by simp_all
  from 1 2 3 4 show ?thesis by simp
qed

end
